theory Spec2Isabelle
  imports Main "HOL-Library.Sublist" "HOL-Library.Multiset"
begin

section \<open>Go strings and the library functions the linter calls\<close>

text \<open>
  A Go string is a sequence of bytes, so it is a \<^typ>\<open>string\<close> here and \<open>len\<close> is
  \<^const>\<open>length\<close>. The functions of this section belong to Go's standard library
  (\<open>strings.Split\<close>, \<open>strings.TrimSpace\<close>, \<open>strings.Contains\<close>, \<open>strings.Join\<close>,
  \<open>fmt\<close>'s \<open>%d\<close>); they are written out as their documentation describes them, for the
  arguments the linter passes.
\<close>

text \<open>\<open>strings.Split(s, sep)\<close> for a separator of one byte.\<close>

fun Split :: "string \<Rightarrow> char \<Rightarrow> string list" where
  "Split [] sep = [[]]"
| "Split (c # cs) sep =
     (if c = sep then [] # Split cs sep
      else (case Split cs sep of [] \<Rightarrow> [[c]] | x # xs \<Rightarrow> (c # x) # xs))"

text \<open>\<open>strings.Join(elems, sep)\<close>.\<close>

fun Join :: "string list \<Rightarrow> string \<Rightarrow> string" where
  "Join [] sep = []"
| "Join [x] sep = x"
| "Join (x # y # ys) sep = x @ sep @ Join (y # ys) sep"

text \<open>\<open>strings.Contains(s, substr)\<close>.\<close>

fun Contains :: "string \<Rightarrow> string \<Rightarrow> bool" where
  "Contains [] sub = (sub = [])"
| "Contains (c # cs) sub = (prefix sub (c # cs) \<or> Contains cs sub)"

text \<open>
  The UTF-8 encodings of the runes for which \<open>unicode.IsSpace\<close> holds: the six ASCII
  ones, U+0085, U+00A0, U+1680, U+2000 to U+200A, U+2028, U+2029, U+202F, U+205F and
  U+3000.
\<close>

definition spaceRunes :: "string list" where
  "spaceRunes =
     [[CHR 0x09], [CHR 0x0A], [CHR 0x0B], [CHR 0x0C], [CHR 0x0D], [CHR 0x20],
      [CHR 0xC2, CHR 0x85], [CHR 0xC2, CHR 0xA0],
      [CHR 0xE1, CHR 0x9A, CHR 0x80],
      [CHR 0xE2, CHR 0x80, CHR 0x80], [CHR 0xE2, CHR 0x80, CHR 0x81],
      [CHR 0xE2, CHR 0x80, CHR 0x82], [CHR 0xE2, CHR 0x80, CHR 0x83],
      [CHR 0xE2, CHR 0x80, CHR 0x84], [CHR 0xE2, CHR 0x80, CHR 0x85],
      [CHR 0xE2, CHR 0x80, CHR 0x86], [CHR 0xE2, CHR 0x80, CHR 0x87],
      [CHR 0xE2, CHR 0x80, CHR 0x88], [CHR 0xE2, CHR 0x80, CHR 0x89],
      [CHR 0xE2, CHR 0x80, CHR 0x8A],
      [CHR 0xE2, CHR 0x80, CHR 0xA8], [CHR 0xE2, CHR 0x80, CHR 0xA9],
      [CHR 0xE2, CHR 0x80, CHR 0xAF],
      [CHR 0xE2, CHR 0x81, CHR 0x9F],
      [CHR 0xE3, CHR 0x80, CHR 0x80]]"

text \<open>
  Removing leading runes of a given set: while the string starts with the encoding of
  one of them, that encoding is dropped.
\<close>

function stripRunes :: "string list \<Rightarrow> string \<Rightarrow> string" where
  "stripRunes rs s =
     (case find (\<lambda>r. r \<noteq> [] \<and> prefix r s) rs of
        None \<Rightarrow> s
      | Some r \<Rightarrow> stripRunes rs (drop (length r) s))"
  by pat_completeness auto
termination
proof (relation "measure (\<lambda>(rs, s). length s)")
  show "wf (measure (\<lambda>(rs, s). length s))" by simp
next
  fix rs :: "string list" and s x2 :: string
  assume found: "find (\<lambda>r. r \<noteq> [] \<and> prefix r s) rs = Some x2"
  from found have "x2 \<noteq> []" and "prefix x2 s"
    by (auto simp: find_Some_iff)
  then have "0 < length x2" and "length x2 \<le> length s"
    by (auto simp: prefix_def)
  then have "length (drop (length x2) s) < length s"
    by (cases x2) auto
  then show "((rs, drop (length x2) s), (rs, s)) \<in> measure (\<lambda>(rs, s). length s)"
    by simp
qed

declare stripRunes.simps [simp del]

text \<open>
  \<open>strings.TrimSpace(s)\<close>: all leading and all trailing white space removed. The trailing
  runes are found by reading the reversed string against the reversed encodings.
\<close>

definition TrimSpace :: "string \<Rightarrow> string" where
  "TrimSpace s = rev (stripRunes (map rev spaceRunes) (rev (stripRunes spaceRunes s)))"

text \<open>The decimal rendering of \<open>%d\<close>.\<close>

fun showNat :: "nat \<Rightarrow> string" where
  "showNat n =
     (if n < 10 then [char_of (48 + n)]
      else showNat (n div 10) @ [char_of (48 + n mod 10)])"

declare showNat.simps [simp del]

definition showInt :: "int \<Rightarrow> string" where
  "showInt i = (if i < 0 then CHR ''-'' # showNat (nat (- i)) else showNat (nat i))"

section \<open>The reference parser (pkg/linter/parser.go)\<close>

record Action =
  ID :: string
  Owner :: string
  Name :: string
  Ref :: string

text \<open>\<open>Action.String\<close>: \<open>fmt.Sprintf("%s/%s@%s", a.Owner, a.Name, a.Ref)\<close>.\<close>

definition String :: "Action \<Rightarrow> string" where
  "String a = Owner a @ ''/'' @ Name a @ ''@'' @ Ref a"

definition RepoID :: "Action \<Rightarrow> string" where
  "RepoID a = Owner a @ ''/'' @ Name a"

text \<open>\<open>repository.Repository{Owner, Name}\<close> as a pair.\<close>

type_synonym Repository = "string \<times> string"

definition Repository :: "Action \<Rightarrow> Repository" where
  "Repository a = (Owner a, Name a)"

definition IsLocalReusableWorkflows :: "Action \<Rightarrow> bool" where
  "IsLocalReusableWorkflows a = prefix ''./.github/workflows/'' (ID a)"

text \<open>
  Modelled from the spec: \<open>resolver.IsSHA\<close>, a function of the module gh-taghash, whose
  source is not among this repository's files. The specification describes it: the
  string is forty hexadecimal digits, in either case.
\<close>

definition isHexDigit :: "char \<Rightarrow> bool" where
  "isHexDigit c =
     (let n = (of_char c :: nat) in
      (48 \<le> n \<and> n \<le> 57) \<or> (97 \<le> n \<and> n \<le> 102) \<or> (65 \<le> n \<and> n \<le> 70))"

definition IsSHA :: "string \<Rightarrow> bool" where
  "IsSHA s = (length s = 40 \<and> list_all isHexDigit s)"

definition IsPinnedBySHA :: "Action \<Rightarrow> bool" where
  "IsPinnedBySHA a = IsSHA (Ref a)"

text \<open>
  \<open>ParseActionUses\<close>. The error of the Go function is \<open>Inl\<close> with its message, the
  parsed action is \<open>Inr\<close>.
\<close>

definition ParseActionUses :: "string \<Rightarrow> string + Action" where
  "ParseActionUses uses0 =
     (let uses = TrimSpace uses0;
          items = Split uses CHR ''@''
      in if length items \<noteq> 2
         then Inl (''unexpected '' @ [CHR 0x27] @ ''uses'' @ [CHR 0x27] @ '' value: '' @ uses)
         else
           let actionID = items ! 0;
               ref = items ! 1;
               a = Split actionID CHR ''/''
           in if length a < 2
              then Inl (''invalid uses value: expected=owner/repo, actual='' @ actionID)
              else Inr \<lparr>ID = actionID, Owner = a ! 0, Name = a ! 1, Ref = ref\<rparr>)"

text \<open>The constants that follow \<open>ParseActionUses\<close> in the same file.\<close>

type_synonym ErrorKind = string

definition KindArchivedActionUsed :: ErrorKind where
  "KindArchivedActionUsed = ''archived action action is being used''"

definition KindRuntimeError :: ErrorKind where
  "KindRuntimeError = ''runtime error''"

definition KindUnexpectedValue :: ErrorKind where
  "KindUnexpectedValue = ''unexpected value''"

definition KindUnpinned :: ErrorKind where
  "KindUnpinned = ''must be pinned by hash''"

definition OfficialCreators :: "string list" where
  "OfficialCreators = [''actions'', ''cli'', ''github'']"

definition actionsByVerifiedCreators :: "string list" where
  "actionsByVerifiedCreators =
     [''docker/login-action'', ''google-github-actions/auth'',
      ''google-github-actions/setup-gcloud'', ''slackapi/slack-github-action'']"

section \<open>The policy parameter set and its options\<close>

record AllowedEntry =
  SHA :: string
  Comment :: "string option"

text \<open>
  \<open>WorkflowLintParams\<close>. A flag is a pointer to a bool: \<open>None\<close> is the nil pointer. A nil
  slice and an empty one behave alike under \<open>append\<close>, \<open>len\<close>, \<open>range\<close> and
  \<open>slices.Contains\<close>, so both are \<open>[]\<close>; a nil map and an empty one behave alike under
  lookup and \<open>len\<close>, so both are \<^const>\<open>Map.empty\<close>.
\<close>

record WorkflowLintParams =
  ExcludeOfficialActions :: "bool option"
  ExcludeVerifiedCreators :: "bool option"
  AllowOnlyAllowlistedHash :: "bool option"
  AllowArchivedRepo :: "bool option"
  EnforcePinHash :: "bool option"
  EnforceVerifiedOrganization :: "bool option"
  CreatorAllowlist :: "string list"
  ActionAllowlist :: "string list"
  HashAllowlist :: "string \<rightharpoonup> AllowedEntry list"

definition DefaultExcludeOfficialActions :: bool where
  "DefaultExcludeOfficialActions = True"

definition DefaultExcludeVerifiedCreators :: bool where
  "DefaultExcludeVerifiedCreators = False"

definition DefaultAllowOnlyAllowlistedHash :: bool where
  "DefaultAllowOnlyAllowlistedHash = False"

definition DefaultAllowArchivedRepo :: bool where
  "DefaultAllowArchivedRepo = True"

definition DefaultEnforcePinHash :: bool where
  "DefaultEnforcePinHash = True"

definition DefaultEnforceVerifiedOrg :: bool where
  "DefaultEnforceVerifiedOrg = False"

text \<open>
  An option is a function that updates the parameters in place and may return an
  error: here it returns the updated parameters, or \<open>Inl\<close> the error.
\<close>

type_synonym WorkflowLintOption = "WorkflowLintParams \<Rightarrow> string + WorkflowLintParams"

definition WithExcludeOfficialActions :: "bool \<Rightarrow> WorkflowLintOption" where
  "WithExcludeOfficialActions v p = Inr (p\<lparr>ExcludeOfficialActions := Some v\<rparr>)"

definition WithExcludeVerifiedCreators :: "bool \<Rightarrow> WorkflowLintOption" where
  "WithExcludeVerifiedCreators v p = Inr (p\<lparr>ExcludeVerifiedCreators := Some v\<rparr>)"

definition WithAllowOnlyAllowlistedHash :: "bool \<Rightarrow> WorkflowLintOption" where
  "WithAllowOnlyAllowlistedHash v p = Inr (p\<lparr>AllowOnlyAllowlistedHash := Some v\<rparr>)"

definition WithAllowArchivedRepo :: "bool \<Rightarrow> WorkflowLintOption" where
  "WithAllowArchivedRepo v p = Inr (p\<lparr>AllowArchivedRepo := Some v\<rparr>)"

definition WithEnforcePinHash :: "bool \<Rightarrow> WorkflowLintOption" where
  "WithEnforcePinHash v p = Inr (p\<lparr>EnforcePinHash := Some v\<rparr>)"

definition WithEnforceVerifiedOrganization :: "bool \<Rightarrow> WorkflowLintOption" where
  "WithEnforceVerifiedOrganization v p = Inr (p\<lparr>EnforceVerifiedOrganization := Some v\<rparr>)"

text \<open>
  The loop of \<open>WithCreatorAllowlist\<close> and \<open>WithActionAllowlist\<close>: each element of \<open>v\<close>,
  in order, is appended to the list unless the list contains it already.
\<close>

fun appendMissing :: "string list \<Rightarrow> string list \<Rightarrow> string list" where
  "appendMissing acc [] = acc"
| "appendMissing acc (x # xs) =
     appendMissing (if x \<in> set acc then acc else acc @ [x]) xs"

definition WithCreatorAllowlist :: "string list \<Rightarrow> WorkflowLintOption" where
  "WithCreatorAllowlist v p =
     Inr (p\<lparr>CreatorAllowlist := appendMissing (CreatorAllowlist p) v\<rparr>)"

definition WithActionAllowlist :: "string list \<Rightarrow> WorkflowLintOption" where
  "WithActionAllowlist v p =
     Inr (p\<lparr>ActionAllowlist := appendMissing (ActionAllowlist p) v\<rparr>)"

definition WithHashAllowlist :: "(string \<rightharpoonup> AllowedEntry list) \<Rightarrow> WorkflowLintOption" where
  "WithHashAllowlist v p = Inr (p\<lparr>HashAllowlist := v\<rparr>)"

text \<open>The zero value of the struct, from which \<open>NewWorkflowLintParams\<close> starts.\<close>

definition zeroParams :: WorkflowLintParams where
  "zeroParams =
     \<lparr>ExcludeOfficialActions = None, ExcludeVerifiedCreators = None,
      AllowOnlyAllowlistedHash = None, AllowArchivedRepo = None,
      EnforcePinHash = None, EnforceVerifiedOrganization = None,
      CreatorAllowlist = [], ActionAllowlist = [], HashAllowlist = Map.empty\<rparr>"

fun applyOptions :: "WorkflowLintOption list \<Rightarrow> WorkflowLintParams \<Rightarrow> string + WorkflowLintParams" where
  "applyOptions [] p = Inr p"
| "applyOptions (opt # opts) p =
     (case opt p of
        Inl err \<Rightarrow> Inl (''failed to apply an option: '' @ err)
      | Inr p' \<Rightarrow> applyOptions opts p')"

definition orDefault :: "bool option \<Rightarrow> bool \<Rightarrow> bool option" where
  "orDefault flag d = (case flag of None \<Rightarrow> Some d | Some v \<Rightarrow> Some v)"

definition NewWorkflowLintParams :: "WorkflowLintOption list \<Rightarrow> string + WorkflowLintParams" where
  "NewWorkflowLintParams opts =
     (case applyOptions opts zeroParams of
        Inl err \<Rightarrow> Inl err
      | Inr p \<Rightarrow>
          Inr (p\<lparr>ExcludeOfficialActions :=
                    orDefault (ExcludeOfficialActions p) DefaultExcludeOfficialActions,
                  ExcludeVerifiedCreators :=
                    orDefault (ExcludeVerifiedCreators p) DefaultExcludeVerifiedCreators,
                  AllowOnlyAllowlistedHash :=
                    orDefault (AllowOnlyAllowlistedHash p) DefaultAllowOnlyAllowlistedHash,
                  AllowArchivedRepo :=
                    orDefault (AllowArchivedRepo p) DefaultAllowArchivedRepo,
                  EnforcePinHash := orDefault (EnforcePinHash p) DefaultEnforcePinHash,
                  EnforceVerifiedOrganization :=
                    orDefault (EnforceVerifiedOrganization p) DefaultEnforceVerifiedOrg\<rparr>))"

definition GetOptions :: "WorkflowLintParams \<Rightarrow> WorkflowLintOption list" where
  "GetOptions p =
     (case ExcludeOfficialActions p of None \<Rightarrow> [] | Some v \<Rightarrow> [WithExcludeOfficialActions v])
     @ (case ExcludeVerifiedCreators p of None \<Rightarrow> [] | Some v \<Rightarrow> [WithExcludeVerifiedCreators v])
     @ (case AllowOnlyAllowlistedHash p of None \<Rightarrow> [] | Some v \<Rightarrow> [WithAllowOnlyAllowlistedHash v])
     @ (case AllowArchivedRepo p of None \<Rightarrow> [] | Some v \<Rightarrow> [WithAllowArchivedRepo v])
     @ (case EnforcePinHash p of None \<Rightarrow> [] | Some v \<Rightarrow> [WithEnforcePinHash v])
     @ (case EnforceVerifiedOrganization p of
          None \<Rightarrow> [] | Some v \<Rightarrow> [WithEnforceVerifiedOrganization v])
     @ (if 0 < length (CreatorAllowlist p) then [WithCreatorAllowlist (CreatorAllowlist p)] else [])
     @ (if 0 < length (ActionAllowlist p) then [WithActionAllowlist (ActionAllowlist p)] else [])
     @ (if HashAllowlist p \<noteq> Map.empty then [WithHashAllowlist (HashAllowlist p)] else [])"

text \<open>
  \<open>GetHashAllowlist\<close>: the entry under the action's ID if there is one, else the entry
  under its repository ID, else nil.
\<close>

definition GetHashAllowlist :: "WorkflowLintParams \<Rightarrow> Action \<Rightarrow> AllowedEntry list" where
  "GetHashAllowlist p action =
     (case HashAllowlist p (ID action) of
        Some allowlist \<Rightarrow> allowlist
      | None \<Rightarrow>
          (case HashAllowlist p (RepoID action) of
             Some allowlist \<Rightarrow> allowlist
           | None \<Rightarrow> []))"

section \<open>The rule engine (the linter)\<close>

text \<open>
  What a Go call can do besides returning: panic (a nil pointer is dereferenced), or
  block for ever.
\<close>

datatype 'a exec = Panics | Blocks | Returns 'a

text \<open>
  \<open>actionlint.Pos\<close> and \<open>actionlint.String\<close>. The parser of actionlint gives every string
  node a position, so the position is not a pointer here. Lines and columns are Go
  \<open>int\<close>s; they and the lengths added to them are bounded by the size of a file held in
  memory, far below \<open>2 ^ 63\<close>, so they are unbounded integers here.
\<close>

record Pos =
  Line :: int
  Col :: int

record actionlint_String =
  Value :: string
  Pos :: Pos

definition PosString :: "Pos \<Rightarrow> string" where
  "PosString p = ''line:'' @ showInt (Line p) @ '',col:'' @ showInt (Col p)"

text \<open>
  \<open>actionlint.Error\<close>, whose fields \<open>Line\<close> and \<open>Column\<close> are \<open>ErrLine\<close> and \<open>Column\<close> here,
  and the linter's \<open>Error\<close> around it. An \<open>actionlint.Project\<close> is its root directory.
\<close>

record actionlint_Error =
  Message :: string
  Filepath :: string
  ErrLine :: int
  Column :: int
  Kind :: string

type_synonym Project = string

record Error =
  LintError :: actionlint_Error
  WorkflowAbsFilePath :: string
  Project :: "Project option"

record GlobalLintParams =
  NumWorkers :: int

text \<open>
  \<open>WorkflowLintInfo\<close>; its fields \<open>Project\<close> and \<open>RepoID\<close> are \<open>WfProject\<close> and \<open>WfRepoID\<close>
  here. \<open>Params\<close> is never nil: \<open>ToWorkflowLintInfo\<close> fills it with the result of
  \<open>makeLintParams\<close>.
\<close>

record WorkflowLintInfo =
  FilePath :: string
  WfProject :: "Project option"
  Params :: WorkflowLintParams
  WfRepoID :: string

record Result =
  LintErrors :: "Error list"
  RuntimeError :: "string option"

record GitTag =
  Tag :: string
  CommitHash :: string

text \<open>
  The part of a parsed workflow that the linter reads. \<open>ExecRun\<close> stands for every
  step that is not an \<open>ExecAction\<close>: the type switch of the task has no case for it.
\<close>

datatype Exec = ExecAction "actionlint_String option" | ExecRun

record Step =
  Exec :: Exec

record Job =
  Steps :: "Step list"

text \<open>
  \<open>Jobs\<close> is a Go map, ranged over in an order that Go does not fix: the list is the
  order of one run.
\<close>

record Workflow =
  WorkflowName :: "actionlint_String option"
  Jobs :: "(string \<times> Job) list"

text \<open>
  The linter's collaborators, which are outside this repository: the tag resolver of
  gh-taghash, the four GraphQL queries that the client answers (each returns the error,
  \<open>None\<close> for nil, and the struct it has filled), \<open>filepath.Rel\<close>, \<open>os.ReadFile\<close>,
  \<open>actionlint.Parse\<close> (the workflow and the parse errors' messages) and the decoding of a
  string into its runes, each rune encoded again (\<open>[]rune(s)\<close>). The time at which a
  repository was archived is the string that \<open>Format("2006-01-02")\<close> gives it.
\<close>

record linter =
  ResolveFromHashContext :: "Repository \<Rightarrow> string \<Rightarrow> string + GitTag list"
  ResolveFromTagContext :: "Repository \<Rightarrow> string \<Rightarrow> string + GitTag"
  QueryIsArchived :: "string \<Rightarrow> string \<Rightarrow> string option \<times> bool \<times> string option"
  QueryLoginUser :: "string \<Rightarrow> string option \<times> string"
  QueryLoginOrg :: "string \<Rightarrow> string option \<times> string"
  QueryIsVerified :: "string \<Rightarrow> string option \<times> bool"
  filepath_Rel :: "string \<Rightarrow> string \<Rightarrow> string + string"
  os_ReadFile :: "string \<Rightarrow> string + string"
  actionlint_Parse :: "string \<Rightarrow> Workflow \<times> string list"
  utf8_Runes :: "string \<Rightarrow> string list"

definition maxCommentLen :: nat where
  "maxCommentLen = 20"

definition shortenHash :: "string \<Rightarrow> string" where
  "shortenHash hash = (if \<not> IsSHA hash then hash else take 7 hash)"

text \<open>
  \<open>replaceNewlines\<close>: every maximal run of bytes of the class \<open>[\r\n\s]\<close> (tab, line feed,
  form feed, carriage return, space) becomes one space. The flag says whether the byte
  before was of the class.
\<close>

definition isNewlineOrSpace :: "char \<Rightarrow> bool" where
  "isNewlineOrSpace c = (c \<in> {CHR 0x09, CHR 0x0A, CHR 0x0C, CHR 0x0D, CHR 0x20})"

fun collapseRuns :: "bool \<Rightarrow> string \<Rightarrow> string" where
  "collapseRuns inRun [] = []"
| "collapseRuns inRun (c # cs) =
     (if isNewlineOrSpace c
      then (if inRun then collapseRuns True cs else CHR '' '' # collapseRuns True cs)
      else c # collapseRuns False cs)"

definition replaceNewlines :: "string \<Rightarrow> string" where
  "replaceNewlines s = collapseRuns False s"

definition truncateString :: "linter \<Rightarrow> string \<Rightarrow> nat \<Rightarrow> string" where
  "truncateString l s len =
     (if length (utf8_Runes l s) \<le> len then s
      else concat (take len (utf8_Runes l s)) @ ''...'')"

text \<open>\<open>query\<close>: the client's error is wrapped.\<close>

definition query :: "string option \<times> 'a \<Rightarrow> string option \<times> 'a" where
  "query r = (map_option (\<lambda>err. ''failed to execute a query: '' @ err) (fst r), snd r)"

text \<open>\<open>newLintError\<close> reads \<open>pos.Line\<close>: a nil position is a panic.\<close>

definition newLintError ::
  "string \<Rightarrow> string \<Rightarrow> WorkflowLintInfo \<Rightarrow> Pos option \<Rightarrow> ErrorKind \<Rightarrow> Error exec" where
  "newLintError msg relPath wfLintInfo pos kind =
     (case pos of
        None \<Rightarrow> Panics
      | Some p \<Rightarrow>
          Returns
            \<lparr>LintError =
               \<lparr>Message = msg, Filepath = relPath, ErrLine = Line p, Column = Col p,
                Kind = kind\<rparr>,
             WorkflowAbsFilePath = FilePath wfLintInfo,
             Project = WfProject wfLintInfo\<rparr>)"

text \<open>\<open>return newLintError(...)\<close> in a function whose result is a pointer to an error.\<close>

definition returnError :: "Error exec \<Rightarrow> Error option exec" where
  "returnError e = (case e of Panics \<Rightarrow> Panics | Blocks \<Rightarrow> Blocks | Returns x \<Rightarrow> Returns (Some x))"

definition RelPath :: "linter \<Rightarrow> WorkflowLintInfo \<Rightarrow> string + string" where
  "RelPath l wfLintInfo =
     (case WfProject wfLintInfo of
        None \<Rightarrow> Inr (FilePath wfLintInfo)
      | Some root \<Rightarrow>
          (case filepath_Rel l root (FilePath wfLintInfo) of
             Inl err \<Rightarrow> Inl (''failed to get relative path: root='' @ root @ '', error='' @ err)
           | Inr relPath \<Rightarrow> Inr relPath))"

text \<open>\<open>checkVerifiedOrg\<close>: the error it returns, \<open>None\<close> for nil.\<close>

definition checkVerifiedOrg :: "linter \<Rightarrow> string \<Rightarrow> WorkflowLintParams \<Rightarrow> string option" where
  "checkVerifiedOrg l login params =
     (case EnforceVerifiedOrganization params of
        None \<Rightarrow> None
      | Some enforce \<Rightarrow>
          if \<not> enforce then None
          else
            let queryLoginUser = query (QueryLoginUser l login) in
            (case (case fst queryLoginUser of
                     None \<Rightarrow> None
                   | Some err \<Rightarrow>
                       if \<not> Contains err ''Could not resolve to'' then Some (Some err) else None) of
               Some early \<Rightarrow> early
             | None \<Rightarrow>
                 if snd queryLoginUser \<noteq> [] then None
                 else
                   let queryLoginOrg = query (QueryLoginOrg l login) in
                   (case fst queryLoginOrg of
                      Some err \<Rightarrow> Some (''failed to execute a query: '' @ err)
                    | None \<Rightarrow>
                        if snd queryLoginOrg = [] then Some (''organization not found: '' @ login)
                        else
                          let queryIsVerified = query (QueryIsVerified l login) in
                          (case fst queryIsVerified of
                             Some err \<Rightarrow> Some (''failed to execute a query: '' @ err)
                           | None \<Rightarrow>
                               if \<not> snd queryIsVerified
                               then Some (''organization is not verified: '' @ login)
                               else None))))"

definition isArchivedAction :: "linter \<Rightarrow> Action \<Rightarrow> string + bool \<times> string option" where
  "isArchivedAction l a =
     (let queryIsArchived = query (QueryIsArchived l (Owner a) (Name a)) in
      case fst queryIsArchived of
        Some err \<Rightarrow> Inl err
      | None \<Rightarrow> Inr (snd queryIsArchived))"

definition isVerifiedCreator :: "Action \<Rightarrow> string + bool" where
  "isVerifiedCreator a = (if RepoID a \<in> set actionsByVerifiedCreators then Inr True else Inr False)"

definition isAllowlisted :: "Action \<Rightarrow> WorkflowLintParams \<Rightarrow> bool \<times> string" where
  "isAllowlisted action params =
     (if Owner action \<in> set (CreatorAllowlist params) then (True, ''allowlisted creator'')
      else if RepoID action \<in> set (ActionAllowlist params) then (True, ''allowlisted action'')
      else if \<not> IsPinnedBySHA action then (False, ''not allowlisted'')
      else if list_ex (\<lambda>entry. SHA entry = Ref action) (GetHashAllowlist params action)
        then (True, ''pinned by allowlisted hash'')
      else (False, ''not allowlisted''))"

definition resolveGitTagNamesFromSha :: "linter \<Rightarrow> Repository \<Rightarrow> string \<Rightarrow> string + string list" where
  "resolveGitTagNamesFromSha l repo ref =
     (case ResolveFromHashContext l repo ref of
        Inl err \<Rightarrow>
          Inl (''failed to resolve git tags from a ref: repo='' @ fst repo @ ''/'' @ snd repo
               @ '', ref='' @ ref @ '', error='' @ err)
      | Inr gitTags \<Rightarrow> Inr (map Tag gitTags))"

text \<open>
  The loop of \<open>lintJobUses\<close> that renders the allowed entries of a hash allowlist; it
  returns at the first entry whose tags cannot be resolved.
\<close>

fun renderAllowlist :: "linter \<Rightarrow> Action \<Rightarrow> AllowedEntry list \<Rightarrow> string + string list" where
  "renderAllowlist l action [] = Inr []"
| "renderAllowlist l action (entry # entries) =
     (let comment = (case Comment entry of
                       None \<Rightarrow> []
                     | Some c \<Rightarrow> TrimSpace (replaceNewlines c))
      in case resolveGitTagNamesFromSha l (Repository action) (SHA entry) of
           Inl err \<Rightarrow> Inl err
         | Inr entryTagNames \<Rightarrow>
             let entryTagsStr = Join entryTagNames '', '';
                 entryShortSHA = shortenHash (SHA entry);
                 allowlistEntry =
                   (if comment = [] then entryShortSHA @ ''('' @ entryTagsStr @ '')''
                    else entryShortSHA @ ''('' @ entryTagsStr @ '': ''
                         @ truncateString l comment maxCommentLen @ '')'')
             in (case renderAllowlist l action entries of
                   Inl err \<Rightarrow> Inl err
                 | Inr allowlist \<Rightarrow> Inr (allowlistEntry # allowlist)))"

text \<open>
  \<open>lintJobUses\<close>: the decision chain for one \<open>uses\<close> value. The result is the pointer it
  returns (\<open>None\<close> is nil: the reference is allowed), unless it panics. Logging is left
  out, but for the panic of \<open>archivedAt.String()\<close> on a nil time. Where the Go function
  returns from inside an \<open>if\<close> and otherwise falls through, the inner \<open>case\<close> gives
  \<open>Some\<close> of what is returned, or \<open>None\<close> to fall through.
\<close>

definition lintJobUses :: "linter \<Rightarrow> actionlint_String option \<Rightarrow> WorkflowLintInfo \<Rightarrow> Error option exec" where
  "lintJobUses l uses wfLintInfo =
  (case uses of
    None \<Rightarrow> Returns None
  | Some u \<Rightarrow>
    let items = Split (Value u) CHR ''@'' in
    if length items = 1 then Returns None
    else if length items = 2 then
     (case RelPath l wfLintInfo of
       Inl err \<Rightarrow>
         returnError (newLintError (''failed to get relative path: '' @ err)
           (FilePath wfLintInfo) wfLintInfo (Some (Pos u)) KindRuntimeError)
     | Inr relPath \<Rightarrow>
      (case ParseActionUses (Value u) of
        Inl err \<Rightarrow>
          returnError (newLintError err relPath wfLintInfo (Some (Pos u)) KindUnexpectedValue)
      | Inr action \<Rightarrow>
        if IsLocalReusableWorkflows action then Returns None
        else
         let params = Params wfLintInfo in
         (case ExcludeOfficialActions params of
           None \<Rightarrow> Panics
         | Some excludeOfficialActions \<Rightarrow>
           if excludeOfficialActions \<and> Owner action \<in> set OfficialCreators then Returns None
           else
            let (allowlisted, reason) = isAllowlisted action params in
            if allowlisted then
             (if IsPinnedBySHA action then
               (case resolveGitTagNamesFromSha l (Repository action) (Ref action) of
                 Inl err \<Rightarrow>
                   returnError (newLintError (''failed to resolve git tags from sha: '' @ err)
                     relPath wfLintInfo (Some (Pos u)) KindRuntimeError)
               | Inr tagNames \<Rightarrow> Returns None)
              else
               (case ResolveFromTagContext l (Repository action) (Ref action) of
                 Inl err \<Rightarrow>
                   returnError (newLintError (''failed to resolve git tag: '' @ err)
                     relPath wfLintInfo (Some (Pos u)) KindRuntimeError)
               | Inr gitTag \<Rightarrow> Returns None))
            else
             (case ExcludeVerifiedCreators params of
               None \<Rightarrow> Panics
             | Some excludeVerifiedCreators \<Rightarrow>
              (case (if excludeVerifiedCreators then
                      (case isVerifiedCreator action of
                        Inl err \<Rightarrow>
                          Some (returnError (newLintError
                            (''failed to check if the creator is verified: '' @ err)
                            relPath wfLintInfo (Some (Pos u)) KindRuntimeError))
                      | Inr verifiedDev \<Rightarrow> if verifiedDev then Some (Returns None) else None)
                     else None) of
                Some early \<Rightarrow> early
              | None \<Rightarrow>
               (case isArchivedAction l action of
                 Inl err \<Rightarrow>
                   returnError (newLintError
                     (''failed to check if the action is archived: '' @ err)
                     relPath wfLintInfo (Some (Pos u)) KindRuntimeError)
               | Inr (archived, archivedAt) \<Rightarrow>
                (case (if archived then
                        (case AllowArchivedRepo params of
                          None \<Rightarrow> Some Panics
                        | Some allowArchivedRepo \<Rightarrow>
                           (case archivedAt of
                             None \<Rightarrow> Some Panics
                           | Some at \<Rightarrow>
                              if \<not> allowArchivedRepo then
                                Some (returnError (newLintError
                                  (''archived action found: repo='' @ RepoID action
                                   @ '', archived-at='' @ at)
                                  relPath wfLintInfo (Some (Pos u))
                                  ''archived action is not allowed''))
                              else None))
                       else None) of
                  Some early \<Rightarrow> early
                | None \<Rightarrow>
                 (case checkVerifiedOrg l (Owner action) params of
                   Some err \<Rightarrow>
                     returnError (newLintError
                       (''failed to check if the owner is verified: '' @ err)
                       relPath wfLintInfo (Some (Pos u)) KindRuntimeError)
                 | None \<Rightarrow>
                   let refPos = \<lparr>Line = Line (Pos u),
                                 Col = Col (Pos u) + int (length (ID action)) + 1\<rparr> in
                   if IsPinnedBySHA action then
                    (case resolveGitTagNamesFromSha l (Repository action) (Ref action) of
                      Inl err \<Rightarrow>
                        returnError (newLintError (''failed to resolve git tags: '' @ err)
                          relPath wfLintInfo (Some refPos) KindRuntimeError)
                    | Inr tagNames \<Rightarrow>
                      let tagsStr = Join tagNames '', '';
                          refShortHash = shortenHash (Ref action) in
                      (case AllowOnlyAllowlistedHash params of
                        None \<Rightarrow> Panics
                      | Some allowOnlyAllowlistedHash \<Rightarrow>
                        if allowOnlyAllowlistedHash then
                         (case renderAllowlist l action
                                 (GetHashAllowlist (Params wfLintInfo) action) of
                           Inl err \<Rightarrow>
                             returnError (newLintError (''failed to resolve git tags: '' @ err)
                               relPath wfLintInfo (Some refPos) KindRuntimeError)
                         | Inr allowlist \<Rightarrow>
                             returnError (newLintError
                               (''invalid ref value: action='' @ ID action @ '', sha=''
                                @ refShortHash @ ''('' @ tagsStr @ ''), allowlist=[''
                                @ Join allowlist '' '' @ '']'')
                               relPath wfLintInfo (Some refPos) ''SHA is not allowlisted''))
                        else Returns None))
                   else
                    (case EnforcePinHash params of
                      None \<Rightarrow> Panics
                    | Some enforcePinHash \<Rightarrow>
                      if enforcePinHash then
                        returnError (newLintError
                          (''invalid ref value: action='' @ RepoID action
                           @ '', expected=SHA, actual='' @ Ref action)
                          relPath wfLintInfo (Some refPos) KindUnpinned)
                      else Returns None)))))))))
    else
      returnError (newLintError (''invalid uses value: '' @ PosString (Pos u))
        (FilePath wfLintInfo) wfLintInfo (Some (Pos u)) KindUnexpectedValue))"

section \<open>The concurrent pipeline and the fan-in\<close>

text \<open>
  A channel is the list of the results sent on it before it is closed. The context is
  never cancelled (\<open>LintWorkflowFiles\<close> and \<open>Execute\<close> pass \<open>context.Background()\<close>), and
  the \<open>done\<close> channel is closed only when \<open>LintWorkflowFilesContext\<close> returns, after its
  loop has drained the merged stream: so a task sends its result and no result is dropped.

  \<open>runLinter\<close>: the task of one step. It runs \<open>lintJobUses\<close> for an action step and sends
  one result, whose \<open>RuntimeError\<close> is nil. A panic in the task's goroutine ends the
  process.
\<close>

definition runLinter :: "linter \<Rightarrow> WorkflowLintInfo \<Rightarrow> Step \<Rightarrow> Result list exec" where
  "runLinter l wfLintInfo step =
     (case Exec step of
        ExecAction uses \<Rightarrow>
          (case lintJobUses l uses wfLintInfo of
             Panics \<Rightarrow> Panics
           | Blocks \<Rightarrow> Blocks
           | Returns None \<Rightarrow> Returns [\<lparr>LintErrors = [], RuntimeError = None\<rparr>]
           | Returns (Some lintError) \<Rightarrow>
               Returns [\<lparr>LintErrors = [lintError], RuntimeError = None\<rparr>])
      | ExecRun \<Rightarrow> Returns [\<lparr>LintErrors = [], RuntimeError = None\<rparr>])"

text \<open>The loop over the steps: one channel for each step, in order.\<close>

fun runLinters :: "linter \<Rightarrow> WorkflowLintInfo \<Rightarrow> Step list \<Rightarrow> Result list list exec" where
  "runLinters l wfLintInfo [] = Returns []"
| "runLinters l wfLintInfo (step # steps) =
     (case runLinter l wfLintInfo step of
        Panics \<Rightarrow> Panics
      | Blocks \<Rightarrow> Blocks
      | Returns c \<Rightarrow>
          (case runLinters l wfLintInfo steps of
             Panics \<Rightarrow> Panics
           | Blocks \<Rightarrow> Blocks
           | Returns cs \<Rightarrow> Returns (c # cs)))"

text \<open>
  \<open>LintWorkflowContext\<close>. A workflow that does not parse gives one channel with one
  result, whose \<open>RuntimeError\<close> is set. Otherwise the debug log reads
  \<open>workflow.Name.Value\<close>, a panic when the workflow has no name. Each task needs a slot of a
  semaphore of weight \<open>NumWorkers\<close>, taken before the task starts and released when
  \<open>lintJobUses\<close> has returned: with no slot at all and a context that is never done, the
  first \<open>Acquire\<close> blocks for ever; with a slot, every task starts in turn.
\<close>

definition LintWorkflowContext ::
  "linter \<Rightarrow> GlobalLintParams \<Rightarrow> WorkflowLintInfo \<Rightarrow> string \<Rightarrow> Result list list exec" where
  "LintWorkflowContext l globalLintParams wfLintInfo content =
     (let (workflow, parseErrors) = actionlint_Parse l content in
      if 0 < length parseErrors then
        Returns [[\<lparr>LintErrors = [],
                   RuntimeError = Some (''failed to parse workflow: path='' @ FilePath wfLintInfo
                     @ '', msg='' @ Join parseErrors [CHR 0x0A])\<rparr>]]
      else
        (case WorkflowName workflow of
           None \<Rightarrow> Panics
         | Some name \<Rightarrow>
             let steps = concat (map (\<lambda>(name, job). Steps job) (Jobs workflow)) in
             if steps \<noteq> [] \<and> NumWorkers globalLintParams < 1 then Blocks
             else runLinters l wfLintInfo steps))"

text \<open>\<open>LintWorkflowFileContext\<close>: \<open>Inl\<close> is the error it returns when the file cannot be read.\<close>

definition LintWorkflowFileContext ::
  "linter \<Rightarrow> GlobalLintParams \<Rightarrow> WorkflowLintInfo \<Rightarrow> (string + Result list list) exec" where
  "LintWorkflowFileContext l globalLintParams wfLintInfo =
     (case os_ReadFile l (FilePath wfLintInfo) of
        Inl err \<Rightarrow>
          Returns (Inl (''failed to read a workflow file: path='' @ FilePath wfLintInfo
                        @ '', error='' @ err))
      | Inr bytes \<Rightarrow>
          (case LintWorkflowContext l globalLintParams wfLintInfo bytes of
             Panics \<Rightarrow> Panics
           | Blocks \<Rightarrow> Blocks
           | Returns channels \<Rightarrow> Returns (Inr channels)))"

text \<open>
  \<open>fanIn\<close>: the merged stream is any interleaving of the channels that keeps the order of
  each channel. It ends when every channel is drained and closed.
\<close>

inductive fanIn :: "'a list list \<Rightarrow> 'a list \<Rightarrow> bool" where
  closed: "concat channels = [] \<Longrightarrow> fanIn channels []"
| receive: "fanIn (before @ rest # after) stream \<Longrightarrow>
            fanIn (before @ (x # rest) # after) (x # stream)"

text \<open>
  The first loop of \<open>LintWorkflowFilesContext\<close>, over the workflow files. The state is
  \<open>lintErrors\<close> and \<open>executorChannels\<close>. For a file that cannot be read it calls
  \<open>newLintError\<close> with a nil position.
\<close>

fun dispatchFiles ::
  "linter \<Rightarrow> GlobalLintParams \<Rightarrow> WorkflowLintInfo list \<Rightarrow> Error list \<times> Result list list
   \<Rightarrow> (Error list \<times> Result list list) exec" where
  "dispatchFiles l globalLintParams [] (lintErrors, executorChannels) =
     Returns (lintErrors, executorChannels)"
| "dispatchFiles l globalLintParams (wfLintInfo # rest) (lintErrors, executorChannels) =
     (case LintWorkflowFileContext l globalLintParams wfLintInfo of
        Panics \<Rightarrow> Panics
      | Blocks \<Rightarrow> Blocks
      | Returns (Inl err) \<Rightarrow>
          (case newLintError err (FilePath wfLintInfo) wfLintInfo None KindRuntimeError of
             Panics \<Rightarrow> Panics
           | Blocks \<Rightarrow> Blocks
           | Returns lintError \<Rightarrow>
               dispatchFiles l globalLintParams rest (lintErrors @ [lintError], executorChannels))
      | Returns (Inr channels) \<Rightarrow>
          dispatchFiles l globalLintParams rest (lintErrors, executorChannels @ channels))"

text \<open>
  The second loop, over the merged stream. The state is \<open>lintErrors\<close> and the errors
  logged so far: a result whose \<open>RuntimeError\<close> is set is logged and skipped, the
  \<open>LintErrors\<close> of any other result are appended.
\<close>

fun collectResults :: "Result list \<Rightarrow> Error list \<times> string list \<Rightarrow> Error list \<times> string list" where
  "collectResults [] (lintErrors, logged) = (lintErrors, logged)"
| "collectResults (result # stream) (lintErrors, logged) =
     (case RuntimeError result of
        Some err \<Rightarrow> collectResults stream (lintErrors, logged @ [err])
      | None \<Rightarrow> collectResults stream (lintErrors @ LintErrors result, logged))"

text \<open>
  \<open>LintWorkflowFilesContext\<close>: a run returns the errors collected from one of the merged
  streams, together with the log of runtime errors.
\<close>

inductive LintWorkflowFilesContext ::
  "linter \<Rightarrow> GlobalLintParams \<Rightarrow> WorkflowLintInfo list \<Rightarrow> (Error list \<times> string list) exec \<Rightarrow> bool" where
  returns: "dispatchFiles l globalLintParams wfLintInfoList ([], []) = Returns (lintErrors, executorChannels)
            \<Longrightarrow> fanIn executorChannels stream
            \<Longrightarrow> LintWorkflowFilesContext l globalLintParams wfLintInfoList
                  (Returns (collectResults stream (lintErrors, [])))"
| panics: "dispatchFiles l globalLintParams wfLintInfoList ([], []) = Panics
           \<Longrightarrow> LintWorkflowFilesContext l globalLintParams wfLintInfoList Panics"
| blocks: "dispatchFiles l globalLintParams wfLintInfoList ([], []) = Blocks
           \<Longrightarrow> LintWorkflowFilesContext l globalLintParams wfLintInfoList Blocks"

section \<open>The configuration file and the cache of parameter sets\<close>

text \<open>
  The library functions that this part calls: \<open>sha3.Sum256\<close> followed by the formatting
  \<open>%x\<close>, \<open>filepath.Join\<close>, \<open>filepath.Dir\<close>, \<open>filepath.Base\<close>, \<open>os.DirFS\<close> (a file system is
  the function that reads a file of it) and \<open>yaml.Unmarshal\<close> into a \<open>WorkflowLintParams\<close>.
\<close>

type_synonym FS = "string \<Rightarrow> string + string"

record library =
  sha3_Sum256_hex :: "string \<Rightarrow> string"
  filepath_Join :: "string \<Rightarrow> string \<Rightarrow> string"
  filepath_Dir :: "string \<Rightarrow> string"
  filepath_Base :: "string \<Rightarrow> string"
  os_DirFS :: "string \<Rightarrow> FS"
  yaml_Unmarshal :: "string \<Rightarrow> string + WorkflowLintParams"

type_synonym ConfigSource = string

definition ConfigSourceFile :: ConfigSource where
  "ConfigSourceFile = ''file''"

definition ConfigSourceFS :: ConfigSource where
  "ConfigSourceFS = ''fs''"

definition ToolName :: string where
  "ToolName = ''actionarmor''"

record ActionArmorConfigFile =
  source :: ConfigSource
  fileSystem :: FS
  dirPath :: string
  fileName :: string

definition NewConfigFileFromFile :: "library \<Rightarrow> string \<Rightarrow> ActionArmorConfigFile" where
  "NewConfigFileFromFile lib path =
     (let dir = filepath_Dir lib path in
      \<lparr>source = ConfigSourceFile, fileSystem = os_DirFS lib dir, dirPath = ''.'',
       fileName = filepath_Base lib path\<rparr>)"

definition NewConfigFileFromFS :: "FS \<Rightarrow> ActionArmorConfigFile" where
  "NewConfigFileFromFS fs =
     \<lparr>source = ConfigSourceFS, fileSystem = fs, dirPath = ''data'',
      fileName = ToolName @ ''.yaml''\<rparr>"

text \<open>The method \<open>FilePath\<close> of a configuration file.\<close>

definition ConfigFilePath :: "library \<Rightarrow> ActionArmorConfigFile \<Rightarrow> string" where
  "ConfigFilePath lib c = filepath_Join lib (dirPath c) (fileName c)"

text \<open>
  \<open>Hash\<close>. Its comment in the source: the hash value is calculated based on the file path
  and the source of the instance and it is not a hash of the file content.
\<close>

definition Hash :: "library \<Rightarrow> ActionArmorConfigFile \<Rightarrow> string" where
  "Hash lib c = sha3_Sum256_hex lib (source c @ ConfigFilePath lib c)"

definition ReadFile :: "library \<Rightarrow> ActionArmorConfigFile \<Rightarrow> string + string" where
  "ReadFile lib c = fileSystem c (ConfigFilePath lib c)"

text \<open>\<open>toLintParams\<close>: the parsed parameters, with the white space around each SHA removed.\<close>

definition toLintParams :: "library \<Rightarrow> string \<Rightarrow> string + WorkflowLintParams" where
  "toLintParams lib data =
     (case yaml_Unmarshal lib data of
        Inl err \<Rightarrow> Inl (''failed to unmarshal the config data: '' @ err)
      | Inr params \<Rightarrow>
          Inr (params\<lparr>HashAllowlist :=
                 (\<lambda>action. map_option (map (\<lambda>entry. entry\<lparr>SHA := TrimSpace (SHA entry)\<rparr>))
                              (HashAllowlist params action))\<rparr>))"

definition ReadLintOptions ::
  "library \<Rightarrow> ActionArmorConfigFile option \<Rightarrow> string + WorkflowLintOption list" where
  "ReadLintOptions lib config =
     (case config of
        None \<Rightarrow> Inl ''required a config file''
      | Some c \<Rightarrow>
          (case ReadFile lib c of
             Inl err \<Rightarrow>
               Inl (''failed to read the config file: path='' @ ConfigFilePath lib c
                    @ '', error='' @ err)
           | Inr data \<Rightarrow>
               (case toLintParams lib data of
                  Inl err \<Rightarrow>
                    Inl (''failed to convert the config file: path='' @ ConfigFilePath lib c
                         @ '', error='' @ err)
                | Inr params \<Rightarrow> Inr (GetOptions params))))"

text \<open>The linter's flags; the fields of \<open>LinterFlags\<close> carry the prefix \<open>Flag\<close> here.\<close>

record LinterFlags =
  FlagExcludeOfficialActions :: bool
  FlagExcludeVerifiedCreators :: bool
  FlagAllowOnlyAllowlistedHash :: bool
  FlagAllowArchivedRepo :: bool
  FlagEnforcePinHash :: bool
  FlagEnforceVerifiedOrg :: bool
  FlagCreatorAllowlist :: "string list"
  FlagActionAllowlist :: "string list"

definition excludeOfficialActionsFlagName :: string where
  "excludeOfficialActionsFlagName = ''exclude-official''"

definition excludeVerifiedCreatorsFlagName :: string where
  "excludeVerifiedCreatorsFlagName = ''exclude-verified-creators''"

definition allowOnlyAllowlistedHashFlagName :: string where
  "allowOnlyAllowlistedHashFlagName = ''only-allowlisted-hash''"

definition allowArchivedRepoFlagName :: string where
  "allowArchivedRepoFlagName = ''allow-archived-repo''"

definition enforcePinHashFlagName :: string where
  "enforcePinHashFlagName = ''enforce-pin-hash''"

definition enforceVerifiedOrganizationFlagName :: string where
  "enforceVerifiedOrganizationFlagName = ''enforce-verified-org''"

definition creatorAllowlistFlagName :: string where
  "creatorAllowlistFlagName = ''creator-allowlist''"

definition actionAllowlistFlagName :: string where
  "actionAllowlistFlagName = ''action-allowlist''"

text \<open>
  \<open>toWorkflowLintOptionsFromFlags\<close>: \<open>visited\<close> is the list of the names of the flags set
  on the command line, in the order in which \<open>VisitAll\<close> visits them.
\<close>

definition flagOption :: "LinterFlags \<Rightarrow> string \<Rightarrow> WorkflowLintOption list" where
  "flagOption flags name =
     (if name = excludeOfficialActionsFlagName
        then [WithExcludeOfficialActions (FlagExcludeOfficialActions flags)]
      else if name = excludeVerifiedCreatorsFlagName
        then [WithExcludeVerifiedCreators (FlagExcludeVerifiedCreators flags)]
      else if name = allowOnlyAllowlistedHashFlagName
        then [WithAllowOnlyAllowlistedHash (FlagAllowOnlyAllowlistedHash flags)]
      else if name = allowArchivedRepoFlagName
        then [WithAllowArchivedRepo (FlagAllowArchivedRepo flags)]
      else if name = enforcePinHashFlagName
        then [WithEnforcePinHash (FlagEnforcePinHash flags)]
      else if name = enforceVerifiedOrganizationFlagName
        then [WithEnforceVerifiedOrganization (FlagEnforceVerifiedOrg flags)]
      else if name = creatorAllowlistFlagName
        then [WithCreatorAllowlist (FlagCreatorAllowlist flags)]
      else if name = actionAllowlistFlagName
        then [WithActionAllowlist (FlagActionAllowlist flags)]
      else [])"

definition toWorkflowLintOptionsFromFlags :: "LinterFlags \<Rightarrow> string list \<Rightarrow> WorkflowLintOption list" where
  "toWorkflowLintOptionsFromFlags flags visited = concat (map (flagOption flags) visited)"

text \<open>
  \<open>makeLintParams\<close>, with the package's \<open>configCache\<close> passed in and returned. The inner
  \<open>case\<close> gives \<open>Inl\<close> of what the function returns from inside \<open>if config != nil\<close>, or
  \<open>Inr\<close> of the options read from the file.
\<close>

type_synonym configCache = "string \<rightharpoonup> WorkflowLintParams"

definition makeLintParams ::
  "library \<Rightarrow> ActionArmorConfigFile option \<Rightarrow> LinterFlags \<Rightarrow> string list \<Rightarrow> configCache
   \<Rightarrow> (string + WorkflowLintParams) \<times> configCache" where
  "makeLintParams lib config flags visited cache =
     (case (case config of
              None \<Rightarrow> Inr []
            | Some c \<Rightarrow>
                (case cache (Hash lib c) of
                   Some params \<Rightarrow> Inl (Inr params)
                 | None \<Rightarrow>
                     (case ReadLintOptions lib config of
                        Inl err \<Rightarrow> Inl (Inl err)
                      | Inr fileOpts \<Rightarrow> Inr fileOpts))) of
        Inl early \<Rightarrow> (early, cache)
      | Inr fileOpts \<Rightarrow>
          let opts = fileOpts @ toWorkflowLintOptionsFromFlags flags visited in
          (case NewWorkflowLintParams opts of
             Inl err \<Rightarrow> (Inl (''failed to create a new WorkflowLintParams: '' @ err), cache)
           | Inr params \<Rightarrow>
               (Inr params,
                (case config of
                   None \<Rightarrow> cache
                 | Some c \<Rightarrow> cache(Hash lib c \<mapsto> params)))))"

section \<open>The scenarios of the test suite\<close>

text \<open>
  The remote state that the tests of \<open>linter_test.go\<close> rely on, as far as the theorems
  below evaluate the linter on it: no tag and no commit belongs to the forty digits
  \<open>1234567890123456789012345678901234567890\<close>, the repository \<open>actions/create-release\<close>
  was archived on 2021-03-04 and no other repository is archived, every login is a
  verified organisation, and the workflow file holds the two steps of the test
  \<open>include multiple errors\<close>, at the positions that the test expects.
\<close>

definition scenarioWorkflow :: Workflow where
  "scenarioWorkflow =
     \<lparr>WorkflowName = Some \<lparr>Value = ''Test Workflow'', Pos = \<lparr>Line = 2, Col = 7\<rparr>\<rparr>,
      Jobs =
        [(''test'',
          \<lparr>Steps =
             [\<lparr>Exec = ExecAction (Some
                 \<lparr>Value = ''tj-actions/changed-files@1234567890123456789012345678901234567890'',
                  Pos = \<lparr>Line = 8, Col = 15\<rparr>\<rparr>)\<rparr>,
              \<lparr>Exec = ExecAction (Some
                 \<lparr>Value = ''bufbuild/buf-action@v1.0.2'',
                  Pos = \<lparr>Line = 9, Col = 15\<rparr>\<rparr>)\<rparr>]\<rparr>)]\<rparr>"

definition scenarioLinter :: linter where
  "scenarioLinter =
     \<lparr>ResolveFromHashContext =
        (\<lambda>repo ref.
           if ref = ''1234567890123456789012345678901234567890''
           then Inl (ref @ '' is neither a commit nor blob'')
           else Inr [\<lparr>Tag = ''v45'', CommitHash = ref\<rparr>]),
      ResolveFromTagContext =
        (\<lambda>repo ref. Inr \<lparr>Tag = ref, CommitHash = ''d6e91a2266cdb9d62096cebf1e8546899c6aa18f''\<rparr>),
      QueryIsArchived =
        (\<lambda>owner name.
           if owner = ''actions'' \<and> name = ''create-release''
           then (None, True, Some ''2021-03-04'')
           else (None, False, None)),
      QueryLoginUser = (\<lambda>login. (None, [])),
      QueryLoginOrg = (\<lambda>login. (None, login)),
      QueryIsVerified = (\<lambda>login. (None, True)),
      filepath_Rel = (\<lambda>root path. Inr path),
      os_ReadFile = (\<lambda>path. Inr ''include multiple errors''),
      actionlint_Parse = (\<lambda>content. (scenarioWorkflow, [])),
      utf8_Runes = map (\<lambda>c. [c])\<rparr>"

text \<open>The same state, but for a tag resolver that resolves no tag.\<close>

definition offlineLinter :: linter where
  "offlineLinter =
     scenarioLinter\<lparr>ResolveFromTagContext := (\<lambda>repo ref. Inl ''could not resolve the tag'')\<rparr>"

text \<open>
  The parameter sets of the scenarios, as \<open>NewWorkflowLintParams\<close> builds them: the
  defaults, with and without the official actions excluded.
\<close>

definition defaultParams :: WorkflowLintParams where
  "defaultParams =
     \<lparr>ExcludeOfficialActions = Some True, ExcludeVerifiedCreators = Some False,
      AllowOnlyAllowlistedHash = Some False, AllowArchivedRepo = Some True,
      EnforcePinHash = Some True, EnforceVerifiedOrganization = Some False,
      CreatorAllowlist = [], ActionAllowlist = [], HashAllowlist = Map.empty\<rparr>"

definition scenarioInfo :: "WorkflowLintParams \<Rightarrow> WorkflowLintInfo" where
  "scenarioInfo params =
     \<lparr>FilePath = ''/repo/.github/workflows/ci.yaml'', WfProject = None, Params = params,
      WfRepoID = ''owner/repo''\<rparr>"

text \<open>The same state, but for a workflow file that does not parse.\<close>

definition brokenLinter :: linter where
  "brokenLinter =
     scenarioLinter\<lparr>actionlint_Parse := (\<lambda>content. (scenarioWorkflow, [''workflow is empty'']))\<rparr>"

text \<open>
  The same state, but for a workflow whose second step uses an official action at a tag.
\<close>

definition officialWorkflow :: Workflow where
  "officialWorkflow =
     \<lparr>WorkflowName = Some \<lparr>Value = ''Test Workflow'', Pos = \<lparr>Line = 2, Col = 7\<rparr>\<rparr>,
      Jobs =
        [(''test'',
          \<lparr>Steps =
             [\<lparr>Exec = ExecAction (Some
                 \<lparr>Value = ''tj-actions/changed-files@1234567890123456789012345678901234567890'',
                  Pos = \<lparr>Line = 8, Col = 15\<rparr>\<rparr>)\<rparr>,
              \<lparr>Exec = ExecAction (Some
                 \<lparr>Value = ''actions/checkout@v4'',
                  Pos = \<lparr>Line = 9, Col = 15\<rparr>\<rparr>)\<rparr>]\<rparr>)]\<rparr>"

definition officialLinter :: linter where
  "officialLinter =
     scenarioLinter\<lparr>actionlint_Parse := (\<lambda>content. (officialWorkflow, []))\<rparr>"

text \<open>
  Two configuration files of the same name whose bytes differ in one character, and a
  library around a digest function: \<open>filepath.Join\<close> of the directory \<open>.\<close> and a name
  is the name, and the parsed file sets \<open>enforce_pin_hash\<close> and nothing else.
\<close>

definition configA :: ActionArmorConfigFile where
  "configA =
     \<lparr>source = ConfigSourceFile, fileSystem = (\<lambda>path. Inr ''enforce_pin_hash: true''),
      dirPath = ''.'', fileName = ''actionarmor.yaml''\<rparr>"

definition configB :: ActionArmorConfigFile where
  "configB =
     \<lparr>source = ConfigSourceFile, fileSystem = (\<lambda>path. Inr ''enforce_pin_hash: True''),
      dirPath = ''.'', fileName = ''actionarmor.yaml''\<rparr>"

definition scenarioLibrary :: "(string \<Rightarrow> string) \<Rightarrow> library" where
  "scenarioLibrary digest =
     \<lparr>sha3_Sum256_hex = digest,
      filepath_Join = (\<lambda>dir name. if dir = ''.'' then name else dir @ ''/'' @ name),
      filepath_Dir = (\<lambda>path. ''.''),
      filepath_Base = (\<lambda>path. path),
      os_DirFS = (\<lambda>dir path. Inl ''file does not exist''),
      yaml_Unmarshal = (\<lambda>data. Inr (zeroParams\<lparr>EnforcePinHash := Some True\<rparr>))\<rparr>"

definition noFlags :: LinterFlags where
  "noFlags =
     \<lparr>FlagExcludeOfficialActions = True, FlagExcludeVerifiedCreators = False,
      FlagAllowOnlyAllowlistedHash = False, FlagAllowArchivedRepo = True,
      FlagEnforcePinHash = True, FlagEnforceVerifiedOrg = False,
      FlagCreatorAllowlist = [], FlagActionAllowlist = []\<rparr>"

section \<open>Facts about the string functions\<close>

lemma Split_not_Nil: "Split s c \<noteq> []"
  by (induction s) (auto split: list.splits)

lemma length_Split: "length (Split s c) = Suc (count_list s c)"
  by (induction s) (auto split: list.splits simp: Split_not_Nil)

lemma Join_Split: "Join (Split s c) [c] = s"
proof (induction s)
  case Nil
  show ?case by simp
next
  case (Cons a s)
  obtain x xs where sp: "Split s c = x # xs"
    using Split_not_Nil [of s c] by (cases "Split s c") auto
  show ?case
    using Cons sp by (cases xs) auto
qed

lemma Split_two: "Split s c = [x, y] \<Longrightarrow> s = x @ [c] @ y"
  using Join_Split [of s c] by simp

text \<open>Stripping runes that do not hold a byte leaves the number of its occurrences.\<close>

lemma count_stripRunes:
  "\<forall>r\<in>set rs. c \<notin> set r \<Longrightarrow> count_list (stripRunes rs s) c = count_list s c"
proof (induction rs s rule: stripRunes.induct)
  case (1 rs s)
  show ?case
  proof (cases "find (\<lambda>r. r \<noteq> [] \<and> prefix r s) rs")
    case None
    then show ?thesis by (simp add: stripRunes.simps)
  next
    case (Some r)
    then have "r \<in> set rs" and "prefix r s"
      by (auto simp: find_Some_iff)
    then obtain t where s: "s = r @ t"
      by (auto simp: prefix_def)
    have "count_list r c = 0"
      using "1.prems" \<open>r \<in> set rs\<close> by (simp add: count_list_0_iff)
    then have "count_list (drop (length r) s) c = count_list s c"
      using s by simp
    moreover have "stripRunes rs s = stripRunes rs (drop (length r) s)"
      using Some by (subst stripRunes.simps) simp
    ultimately show ?thesis
      using "1.IH" [OF Some "1.prems"] by simp
  qed
qed

lemma count_TrimSpace_at: "count_list (TrimSpace s) CHR ''@'' = count_list s CHR ''@''"
proof -
  have a: "\<forall>r\<in>set spaceRunes. CHR ''@'' \<notin> set r"
    by (simp add: spaceRunes_def)
  have b: "\<forall>r\<in>set (map rev spaceRunes). CHR ''@'' \<notin> set r"
    using a by simp
  show ?thesis
    unfolding TrimSpace_def
    by (simp add: count_stripRunes [OF a] count_stripRunes [OF b] del: set_map)
qed

lemmas parse_eval =
  ParseActionUses_def TrimSpace_def stripRunes.simps spaceRunes_def Let_def

section \<open>The reference parser\<close>

lemma ParseActionUses_Inr:
  assumes "ParseActionUses s = Inr a"
  shows "Split (TrimSpace s) CHR ''@'' = [ID a, Ref a]"
    and "\<exists>rest. Split (ID a) CHR ''/'' = Owner a # Name a # rest"
proof -
  let ?items = "Split (TrimSpace s) CHR ''@''"
  let ?segs = "Split (?items ! 0) CHR ''/''"
  from assms have len: "length ?items = 2" and seg: "\<not> length ?segs < 2"
    and a: "a = \<lparr>ID = ?items ! 0, Owner = ?segs ! 0, Name = ?segs ! 1, Ref = ?items ! 1\<rparr>"
    by (auto simp: ParseActionUses_def Let_def split: if_splits)
  from len obtain x y where items: "?items = [x, y]"
    by (cases ?items; cases "tl ?items") auto
  show "Split (TrimSpace s) CHR ''@'' = [ID a, Ref a]"
    using a items by simp
  from seg obtain p q rest where "?segs = p # q # rest"
    by (cases ?segs; cases "tl ?segs") auto
  then show "\<exists>rest. Split (ID a) CHR ''/'' = Owner a # Name a # rest"
    using a by simp
qed

text \<open>
  Claim C5, as the specification states it: every action that \<open>ParseActionUses\<close> returns
  was parsed from a string with exactly one \<open>@\<close>, and its \<open>Owner\<close> and \<open>Name\<close> are not
  empty. The second half fails: the parser only asks for a \<open>/\<close> in the part before the
  \<open>@\<close>, so \<open>/@x\<close> parses, to an action whose owner and name are both empty.
\<close>

theorem ParseActionUses_empty_owner_and_name:
  "ParseActionUses ''/@x'' = Inr \<lparr>ID = ''/'', Owner = [], Name = [], Ref = ''x''\<rparr>"
  by (simp add: parse_eval)

text \<open>
  Claim C5, amended: every action that \<open>ParseActionUses\<close> returns was parsed from a
  string with exactly one \<open>@\<close>; the string without the white space around it is the
  action's \<open>ID\<close>, an \<open>@\<close> and its \<open>Ref\<close>; and the \<open>ID\<close> has at least two segments between
  \<open>/\<close>, of which \<open>Owner\<close> is the first and \<open>Name\<close> the second (either may be empty).
\<close>

theorem ParseActionUses_shape:
  assumes "ParseActionUses s = Inr a"
  shows "count_list s CHR ''@'' = 1
         \<and> TrimSpace s = ID a @ ''@'' @ Ref a
         \<and> (\<exists>rest. Split (ID a) CHR ''/'' = Owner a # Name a # rest)"
proof -
  have sp: "Split (TrimSpace s) CHR ''@'' = [ID a, Ref a]"
    by (rule ParseActionUses_Inr(1) [OF assms])
  have "length (Split (TrimSpace s) CHR ''@'') = 2"
    by (simp add: sp)
  then have "count_list (TrimSpace s) CHR ''@'' = 1"
    by (simp add: length_Split)
  then have "count_list s CHR ''@'' = 1"
    by (simp add: count_TrimSpace_at)
  moreover have "TrimSpace s = ID a @ ''@'' @ Ref a"
    using Split_two [OF sp] by simp
  ultimately show ?thesis
    using ParseActionUses_Inr(2) [OF assms] by simp
qed

theorem ParseActionUses_shape_witness:
  "ParseActionUses '' owner/repo/dir@ref''
     = Inr \<lparr>ID = ''owner/repo/dir'', Owner = ''owner'', Name = ''repo'', Ref = ''ref''\<rparr>
   \<and> count_list '' owner/repo/dir@ref'' CHR ''@'' = 1
   \<and> TrimSpace '' owner/repo/dir@ref'' = ''owner/repo/dir@ref''
   \<and> Split ''owner/repo/dir'' CHR ''/'' = [''owner'', ''repo'', ''dir'']"
proof -
  have h: "ParseActionUses '' owner/repo/dir@ref''
             = Inr \<lparr>ID = ''owner/repo/dir'', Owner = ''owner'', Name = ''repo'', Ref = ''ref''\<rparr>"
    by (simp add: parse_eval)
  show ?thesis
    using h ParseActionUses_shape [OF h] by auto
qed

text \<open>
  Claim C10, as stated: \<open>String\<close> is \<open>Owner/Name@Ref\<close>, and parsing then \<open>String\<close> gives the
  string back exactly when the \<open>ID\<close> has two segments. The parser removes the white space
  around the string first, so a string with a leading space and an \<open>ID\<close> of two segments
  does not come back.
\<close>

theorem String_roundtrip_leading_space:
  "ParseActionUses '' a/b@v'' = Inr \<lparr>ID = ''a/b'', Owner = ''a'', Name = ''b'', Ref = ''v''\<rparr>
   \<and> length (Split ''a/b'' CHR ''/'') = 2
   \<and> String \<lparr>ID = ''a/b'', Owner = ''a'', Name = ''b'', Ref = ''v''\<rparr> \<noteq> '' a/b@v''"
  by (simp add: parse_eval String_def)

text \<open>
  Claim C10, amended: for every action, \<open>String\<close> is \<open>Owner\<close>, \<open>/\<close>, \<open>Name\<close>, \<open>@\<close> and \<open>Ref\<close>,
  whatever further segments the \<open>ID\<close> holds; and for every string that parses, \<open>String\<close> of
  the parsed action is the string without the white space around it exactly when the
  \<open>ID\<close> has two segments between \<open>/\<close>. So a reference to a reusable workflow,
  \<open>owner/repo/.github/workflows/x.yml@ref\<close>, does not come back.
\<close>

theorem String_roundtrip:
  assumes "ParseActionUses s = Inr a"
  shows "String a = Owner a @ ''/'' @ Name a @ ''@'' @ Ref a
         \<and> (String a = TrimSpace s \<longleftrightarrow> length (Split (ID a) CHR ''/'') = 2)"
proof -
  have sp: "Split (TrimSpace s) CHR ''@'' = [ID a, Ref a]"
    by (rule ParseActionUses_Inr(1) [OF assms])
  have trim: "TrimSpace s = ID a @ ''@'' @ Ref a"
    using Split_two [OF sp] by simp
  obtain rest where segs: "Split (ID a) CHR ''/'' = Owner a # Name a # rest"
    using ParseActionUses_Inr(2) [OF assms] by blast
  have idj: "ID a = Join (Owner a # Name a # rest) ''/''"
    using Join_Split [of "ID a" "CHR ''/''"] segs by simp
  have "(String a = TrimSpace s) = (rest = [])"
  proof (cases rest)
    case Nil
    then show ?thesis using idj trim by (simp add: String_def)
  next
    case (Cons r rs)
    then have "ID a = Owner a @ ''/'' @ Name a @ ''/'' @ Join (r # rs) ''/''"
      using idj by simp
    then show ?thesis using trim Cons by (simp add: String_def)
  qed
  then show ?thesis
    using segs by (simp add: String_def)
qed

theorem String_roundtrip_witness:
  "ParseActionUses ''owner/repo/.github/workflows/x.yml@ref''
     = Inr \<lparr>ID = ''owner/repo/.github/workflows/x.yml'', Owner = ''owner'', Name = ''repo'',
            Ref = ''ref''\<rparr>
   \<and> String \<lparr>ID = ''owner/repo/.github/workflows/x.yml'', Owner = ''owner'', Name = ''repo'',
             Ref = ''ref''\<rparr> = ''owner/repo@ref''
   \<and> String \<lparr>ID = ''owner/repo/.github/workflows/x.yml'', Owner = ''owner'', Name = ''repo'',
             Ref = ''ref''\<rparr> \<noteq> TrimSpace ''owner/repo/.github/workflows/x.yml@ref''
   \<and> length (Split ''owner/repo/.github/workflows/x.yml'' CHR ''/'') \<noteq> 2"
proof -
  have h: "ParseActionUses ''owner/repo/.github/workflows/x.yml@ref''
             = Inr \<lparr>ID = ''owner/repo/.github/workflows/x.yml'', Owner = ''owner'',
                    Name = ''repo'', Ref = ''ref''\<rparr>"
    by (simp add: parse_eval)
  have n: "length (Split ''owner/repo/.github/workflows/x.yml'' CHR ''/'') \<noteq> 2"
    by simp
  show ?thesis
    using h n String_roundtrip [OF h] by (simp add: String_def)
qed

section \<open>The options of the policy parameter set\<close>

lemma appendMissing_added:
  "\<exists>added. appendMissing acc v = acc @ added \<and> distinct added \<and> set added = set v - set acc"
proof (induction v arbitrary: acc)
  case Nil
  show ?case by simp
next
  case (Cons x xs)
  show ?case
  proof (cases "x \<in> set acc")
    case True
    obtain added where "appendMissing acc xs = acc @ added" "distinct added"
      "set added = set xs - set acc"
      using Cons [of acc] by blast
    then show ?thesis using True by auto
  next
    case False
    obtain added where a: "appendMissing (acc @ [x]) xs = (acc @ [x]) @ added" "distinct added"
      "set added = set xs - set (acc @ [x])"
      using Cons [of "acc @ [x]"] by blast
    have "appendMissing acc (x # xs) = acc @ (x # added)"
      using False a by simp
    moreover have "distinct (x # added)"
      using a by auto
    moreover have "set (x # added) = set (x # xs) - set acc"
      using a False by auto
    ultimately show ?thesis by blast
  qed
qed

lemma appendMissing_subset: "set v \<subseteq> set acc \<Longrightarrow> appendMissing acc v = acc"
  by (induction v arbitrary: acc) auto

lemma appendMissing_idem: "appendMissing (appendMissing acc v) v = appendMissing acc v"
proof -
  obtain added where "appendMissing acc v = acc @ added" "set added = set v - set acc"
    using appendMissing_added [of acc v] by blast
  then have "set v \<subseteq> set (appendMissing acc v)"
    by auto
  then show ?thesis
    by (rule appendMissing_subset)
qed

text \<open>
  Claim C7, as stated: every option is idempotent, and the three allowlist options merge
  with what was accumulated before. \<open>WithHashAllowlist\<close> does not merge: it assigns its
  argument to the field, so the entries of an earlier hash allowlist are gone. Here the
  entry for \<open>tj-actions/changed-files\<close> of the first option is absent after the second.
\<close>

theorem WithHashAllowlist_overwrites:
  "map_sum id (\<lambda>p. HashAllowlist p ''tj-actions/changed-files'')
     (applyOptions
        [WithHashAllowlist [''tj-actions/changed-files'' \<mapsto>
            [\<lparr>SHA = ''d6e91a2266cdb9d62096cebf1e8546899c6aa18f'', Comment = None\<rparr>]],
         WithHashAllowlist [''bufbuild/buf-action'' \<mapsto>
            [\<lparr>SHA = ''1234567890123456789012345678901234567890'', Comment = None\<rparr>]]]
        zeroParams)
   = Inr None"
  by (simp add: WithHashAllowlist_def zeroParams_def)

text \<open>
  Claim C7, amended: every option is idempotent (applying it twice with the same value
  gives what applying it once gives); the creator allowlist option and the action
  allowlist option keep the list accumulated before and append to it the elements of
  their argument that it lacks, each once; the hash allowlist option replaces the map
  accumulated before by its argument.
\<close>

theorem options_idempotent_allowlists_merge:
  "applyOptions [WithExcludeOfficialActions b, WithExcludeOfficialActions b] p
     = applyOptions [WithExcludeOfficialActions b] p
   \<and> applyOptions [WithExcludeVerifiedCreators b, WithExcludeVerifiedCreators b] p
     = applyOptions [WithExcludeVerifiedCreators b] p
   \<and> applyOptions [WithAllowOnlyAllowlistedHash b, WithAllowOnlyAllowlistedHash b] p
     = applyOptions [WithAllowOnlyAllowlistedHash b] p
   \<and> applyOptions [WithAllowArchivedRepo b, WithAllowArchivedRepo b] p
     = applyOptions [WithAllowArchivedRepo b] p
   \<and> applyOptions [WithEnforcePinHash b, WithEnforcePinHash b] p
     = applyOptions [WithEnforcePinHash b] p
   \<and> applyOptions [WithEnforceVerifiedOrganization b, WithEnforceVerifiedOrganization b] p
     = applyOptions [WithEnforceVerifiedOrganization b] p
   \<and> applyOptions [WithCreatorAllowlist v, WithCreatorAllowlist v] p
     = applyOptions [WithCreatorAllowlist v] p
   \<and> applyOptions [WithActionAllowlist v, WithActionAllowlist v] p
     = applyOptions [WithActionAllowlist v] p
   \<and> applyOptions [WithHashAllowlist m, WithHashAllowlist m] p
     = applyOptions [WithHashAllowlist m] p
   \<and> (\<exists>added. WithCreatorAllowlist v p = Inr (p\<lparr>CreatorAllowlist := CreatorAllowlist p @ added\<rparr>)
         \<and> distinct added \<and> set added = set v - set (CreatorAllowlist p))
   \<and> (\<exists>added. WithActionAllowlist v p = Inr (p\<lparr>ActionAllowlist := ActionAllowlist p @ added\<rparr>)
         \<and> distinct added \<and> set added = set v - set (ActionAllowlist p))
   \<and> WithHashAllowlist m p = Inr (p\<lparr>HashAllowlist := m\<rparr>)"
proof -
  have flags: "applyOptions [WithExcludeOfficialActions b, WithExcludeOfficialActions b] p
                 = applyOptions [WithExcludeOfficialActions b] p"
    "applyOptions [WithExcludeVerifiedCreators b, WithExcludeVerifiedCreators b] p
       = applyOptions [WithExcludeVerifiedCreators b] p"
    "applyOptions [WithAllowOnlyAllowlistedHash b, WithAllowOnlyAllowlistedHash b] p
       = applyOptions [WithAllowOnlyAllowlistedHash b] p"
    "applyOptions [WithAllowArchivedRepo b, WithAllowArchivedRepo b] p
       = applyOptions [WithAllowArchivedRepo b] p"
    "applyOptions [WithEnforcePinHash b, WithEnforcePinHash b] p
       = applyOptions [WithEnforcePinHash b] p"
    "applyOptions [WithEnforceVerifiedOrganization b, WithEnforceVerifiedOrganization b] p
       = applyOptions [WithEnforceVerifiedOrganization b] p"
    by (simp_all add: WithExcludeOfficialActions_def WithExcludeVerifiedCreators_def
        WithAllowOnlyAllowlistedHash_def WithAllowArchivedRepo_def WithEnforcePinHash_def
        WithEnforceVerifiedOrganization_def)
  have lists: "applyOptions [WithCreatorAllowlist v, WithCreatorAllowlist v] p
                 = applyOptions [WithCreatorAllowlist v] p"
    "applyOptions [WithActionAllowlist v, WithActionAllowlist v] p
       = applyOptions [WithActionAllowlist v] p"
    "applyOptions [WithHashAllowlist m, WithHashAllowlist m] p
       = applyOptions [WithHashAllowlist m] p"
    by (simp_all add: WithCreatorAllowlist_def WithActionAllowlist_def WithHashAllowlist_def
        appendMissing_idem)
  have creator: "\<exists>added. WithCreatorAllowlist v p
                   = Inr (p\<lparr>CreatorAllowlist := CreatorAllowlist p @ added\<rparr>)
                 \<and> distinct added \<and> set added = set v - set (CreatorAllowlist p)"
    using appendMissing_added [of "CreatorAllowlist p" v]
    by (auto simp: WithCreatorAllowlist_def)
  have action: "\<exists>added. WithActionAllowlist v p
                   = Inr (p\<lparr>ActionAllowlist := ActionAllowlist p @ added\<rparr>)
                 \<and> distinct added \<and> set added = set v - set (ActionAllowlist p)"
    using appendMissing_added [of "ActionAllowlist p" v]
    by (auto simp: WithActionAllowlist_def)
  have hash: "WithHashAllowlist m p = Inr (p\<lparr>HashAllowlist := m\<rparr>)"
    by (simp add: WithHashAllowlist_def)
  show ?thesis
    using flags lists creator action hash by blast
qed

section \<open>The rule engine\<close>

lemma ParseActionUses_items:
  assumes "ParseActionUses s = Inr a"
  shows "length (Split s CHR ''@'') = 2"
proof -
  have "length (Split (TrimSpace s) CHR ''@'') = 2"
    using ParseActionUses_Inr(1) [OF assms] by simp
  then show ?thesis
    by (simp add: length_Split count_TrimSpace_at)
qed

lemma Contains_prefix: "prefix sub s \<Longrightarrow> Contains s sub"
  by (cases s) auto

lemma Contains_append: "Contains (a @ b @ c) b"
  by (induction a) (auto intro: Contains_prefix)

lemmas lint_eval =
  lintJobUses_def RelPath_def isAllowlisted_def isVerifiedCreator_def isArchivedAction_def
  checkVerifiedOrg_def resolveGitTagNamesFromSha_def query_def newLintError_def
  returnError_def GetHashAllowlist_def IsLocalReusableWorkflows_def IsPinnedBySHA_def
  IsSHA_def isHexDigit_def RepoID_def Repository_def OfficialCreators_def
  actionsByVerifiedCreators_def shortenHash_def

lemmas scenario_eval =
  scenarioLinter_def offlineLinter_def brokenLinter_def scenarioInfo_def defaultParams_def
  scenarioWorkflow_def

text \<open>
  A reference that no rule before the pin rules decides: it parses, it is not a local
  reusable workflow, not an excluded official action, not allowlisted, not an excluded
  verified creator's, its repository is not archived or archived repositories are
  allowed, and the check of the organisation raises nothing. For it \<open>lintJobUses\<close> is
  what the last two rules give.
\<close>

lemma lintJobUses_pin_rules:
  assumes parse: "ParseActionUses (Value u) = Inr action"
    and rel: "RelPath l wfLintInfo = Inr relPath"
    and notLocal: "\<not> IsLocalReusableWorkflows action"
    and official: "ExcludeOfficialActions (Params wfLintInfo) = Some excludeOfficial"
      "\<not> (excludeOfficial \<and> Owner action \<in> set OfficialCreators)"
    and notAllowlisted: "\<not> fst (isAllowlisted action (Params wfLintInfo))"
    and verified: "ExcludeVerifiedCreators (Params wfLintInfo) = Some excludeVerified"
      "\<not> (excludeVerified \<and> RepoID action \<in> set actionsByVerifiedCreators)"
    and archived: "isArchivedAction l action = Inr (archived, archivedAt)"
      "archived \<longrightarrow> AllowArchivedRepo (Params wfLintInfo) = Some True \<and> archivedAt \<noteq> None"
    and org: "checkVerifiedOrg l (Owner action) (Params wfLintInfo) = None"
  shows "lintJobUses l (Some u) wfLintInfo =
     (let refPos = \<lparr>Line = Line (Pos u), Col = Col (Pos u) + int (length (ID action)) + 1\<rparr> in
      if IsPinnedBySHA action then
        (case resolveGitTagNamesFromSha l (Repository action) (Ref action) of
           Inl err \<Rightarrow>
             returnError (newLintError (''failed to resolve git tags: '' @ err)
               relPath wfLintInfo (Some refPos) KindRuntimeError)
         | Inr tagNames \<Rightarrow>
             (case AllowOnlyAllowlistedHash (Params wfLintInfo) of
                None \<Rightarrow> Panics
              | Some allowOnlyAllowlistedHash \<Rightarrow>
                  if allowOnlyAllowlistedHash then
                    (case renderAllowlist l action (GetHashAllowlist (Params wfLintInfo) action) of
                       Inl err \<Rightarrow>
                         returnError (newLintError (''failed to resolve git tags: '' @ err)
                           relPath wfLintInfo (Some refPos) KindRuntimeError)
                     | Inr allowlist \<Rightarrow>
                         returnError (newLintError
                           (''invalid ref value: action='' @ ID action @ '', sha=''
                            @ shortenHash (Ref action) @ ''('' @ Join tagNames '', ''
                            @ ''), allowlist=['' @ Join allowlist '' '' @ '']'')
                           relPath wfLintInfo (Some refPos) ''SHA is not allowlisted''))
                  else Returns None))
      else
        (case EnforcePinHash (Params wfLintInfo) of
           None \<Rightarrow> Panics
         | Some enforcePinHash \<Rightarrow>
             if enforcePinHash then
               returnError (newLintError
                 (''invalid ref value: action='' @ RepoID action
                  @ '', expected=SHA, actual='' @ Ref action)
                 relPath wfLintInfo (Some refPos) KindUnpinned)
             else Returns None))"
proof -
  have items: "length (Split (Value u) CHR ''@'') = 2"
    by (rule ParseActionUses_items [OF parse])
  have early: "(if archived then
                  (case AllowArchivedRepo (Params wfLintInfo) of
                     None \<Rightarrow> Some Panics
                   | Some allowArchivedRepo \<Rightarrow>
                       (case archivedAt of
                          None \<Rightarrow> Some Panics
                        | Some at \<Rightarrow> if \<not> allowArchivedRepo then Some (X at) else None))
                else None) = None" for X :: "string \<Rightarrow> Error option exec"
    using archived(2) by (cases archived) auto
  show ?thesis
    using notLocal official(2) notAllowlisted verified(2)
    by (auto simp: lintJobUses_def Let_def items rel parse official(1) verified(1) archived(1)
        org early isVerifiedCreator_def case_prod_beta split: sum.splits)
qed

text \<open>
  Claim C4, as stated: a reference that reaches the last rule and is not pinned by a SHA
  is rejected, when \<open>enforce-pin-hash\<close> is true, at the column of the \<open>uses\<close> token plus
  the length of the action's ID plus one, and that column points at the ref. The ID is
  taken from the value with the white space around it removed, so for a value with a
  leading space the column falls short of the ref: for the value \<open> a/b@v\<close> at column 1
  the column is 5, and the value from its fifth byte on is \<open>@v\<close>, not the ref \<open>v\<close>.
\<close>

theorem unpinned_column_misses_ref:
  "lintJobUses scenarioLinter
     (Some \<lparr>Value = '' a/b@v'', Pos = \<lparr>Line = 1, Col = 1\<rparr>\<rparr>)
     (scenarioInfo defaultParams)
   = Returns (Some
       \<lparr>LintError =
          \<lparr>Message = ''invalid ref value: action=a/b, expected=SHA, actual=v'',
           Filepath = ''/repo/.github/workflows/ci.yaml'', ErrLine = 1, Column = 5,
           Kind = KindUnpinned\<rparr>,
        WorkflowAbsFilePath = ''/repo/.github/workflows/ci.yaml'', Project = None\<rparr>)
   \<and> drop (nat (5 - 1)) '' a/b@v'' = ''@v''
   \<and> drop (nat (5 - 1)) '' a/b@v'' \<noteq> ''v''"
  by (simp add: lint_eval scenario_eval parse_eval KindUnpinned_def)

text \<open>
  Claim C4, amended: a reference that reaches the last rule of the chain and is not
  pinned by a SHA is rejected when \<open>enforce-pin-hash\<close> is true, with the kind \<open>Unpinned\<close>,
  a message that contains \<open>expected=SHA, actual=\<close> followed by the ref, the line of the
  \<open>uses\<close> token and its column plus the length of the action's ID plus one, the ID being
  taken from the value without the white space around it; it is allowed when
  \<open>enforce-pin-hash\<close> is false. That offset, the length of the ID plus one, is where the
  ref starts in the \<open>uses\<close> value when the value has no white space around it.
\<close>

theorem unpinned_rule:
  assumes parse: "ParseActionUses (Value u) = Inr action"
    and rel: "RelPath l wfLintInfo = Inr relPath"
    and notLocal: "\<not> IsLocalReusableWorkflows action"
    and official: "ExcludeOfficialActions (Params wfLintInfo) = Some excludeOfficial"
      "\<not> (excludeOfficial \<and> Owner action \<in> set OfficialCreators)"
    and notAllowlisted: "Owner action \<notin> set (CreatorAllowlist (Params wfLintInfo))"
      "RepoID action \<notin> set (ActionAllowlist (Params wfLintInfo))"
    and verified: "ExcludeVerifiedCreators (Params wfLintInfo) = Some excludeVerified"
      "\<not> (excludeVerified \<and> RepoID action \<in> set actionsByVerifiedCreators)"
    and archived: "isArchivedAction l action = Inr (archived, archivedAt)"
      "archived \<longrightarrow> AllowArchivedRepo (Params wfLintInfo) = Some True \<and> archivedAt \<noteq> None"
    and org: "checkVerifiedOrg l (Owner action) (Params wfLintInfo) = None"
    and notPinned: "\<not> IsPinnedBySHA action"
    and enforce: "EnforcePinHash (Params wfLintInfo) = Some enforcePinHash"
  shows "lintJobUses l (Some u) wfLintInfo =
           (if enforcePinHash
            then Returns (Some
              \<lparr>LintError =
                 \<lparr>Message = ''invalid ref value: action='' @ RepoID action
                             @ '', expected=SHA, actual='' @ Ref action,
                  Filepath = relPath,
                  ErrLine = Line (Pos u),
                  Column = Col (Pos u) + int (length (ID action)) + 1,
                  Kind = KindUnpinned\<rparr>,
               WorkflowAbsFilePath = FilePath wfLintInfo,
               Project = WfProject wfLintInfo\<rparr>)
            else Returns None)
         \<and> Contains (''invalid ref value: action='' @ RepoID action
                      @ '', expected=SHA, actual='' @ Ref action)
                     (''expected=SHA, actual='' @ Ref action)
         \<and> TrimSpace (Value u) = ID action @ ''@'' @ Ref action
         \<and> (TrimSpace (Value u) = Value u
              \<longrightarrow> drop (length (ID action) + 1) (Value u) = Ref action)"
proof -
  have na: "\<not> fst (isAllowlisted action (Params wfLintInfo))"
    using notAllowlisted notPinned by (simp add: isAllowlisted_def)
  have run: "lintJobUses l (Some u) wfLintInfo =
           (if enforcePinHash
            then Returns (Some
              \<lparr>LintError =
                 \<lparr>Message = ''invalid ref value: action='' @ RepoID action
                             @ '', expected=SHA, actual='' @ Ref action,
                  Filepath = relPath,
                  ErrLine = Line (Pos u),
                  Column = Col (Pos u) + int (length (ID action)) + 1,
                  Kind = KindUnpinned\<rparr>,
               WorkflowAbsFilePath = FilePath wfLintInfo,
               Project = WfProject wfLintInfo\<rparr>)
            else Returns None)"
    using notPinned
    by (simp add: lintJobUses_pin_rules [OF parse rel notLocal official na verified archived org]
        enforce newLintError_def returnError_def)
  have "Contains ((''invalid ref value: action='' @ RepoID action @ '', '')
                  @ (''expected=SHA, actual='' @ Ref action) @ [])
                 (''expected=SHA, actual='' @ Ref action)"
    by (rule Contains_append)
  then have msg: "Contains (''invalid ref value: action='' @ RepoID action
                            @ '', expected=SHA, actual='' @ Ref action)
                           (''expected=SHA, actual='' @ Ref action)"
    by simp
  have trim: "TrimSpace (Value u) = ID action @ ''@'' @ Ref action"
    using Split_two [OF ParseActionUses_Inr(1) [OF parse]] by simp
  have "drop (length (ID action) + 1) (Value u) = Ref action"
    if "TrimSpace (Value u) = Value u"
  proof -
    have "Value u = ID action @ ''@'' @ Ref action"
      using trim that by simp
    then show ?thesis by simp
  qed
  then show ?thesis
    using run msg trim by blast
qed

theorem unpinned_rule_witness:
  "lintJobUses scenarioLinter
     (Some \<lparr>Value = ''actions/checkout@v4'', Pos = \<lparr>Line = 8, Col = 15\<rparr>\<rparr>)
     (scenarioInfo (defaultParams\<lparr>ExcludeOfficialActions := Some False\<rparr>))
   = Returns (Some
       \<lparr>LintError =
          \<lparr>Message = ''invalid ref value: action=actions/checkout, expected=SHA, actual=v4'',
           Filepath = ''/repo/.github/workflows/ci.yaml'', ErrLine = 8, Column = 32,
           Kind = KindUnpinned\<rparr>,
        WorkflowAbsFilePath = ''/repo/.github/workflows/ci.yaml'', Project = None\<rparr>)
   \<and> Contains ''invalid ref value: action=actions/checkout, expected=SHA, actual=v4''
               ''expected=SHA, actual=v4''
   \<and> lintJobUses scenarioLinter
        (Some \<lparr>Value = ''actions/checkout@v4'', Pos = \<lparr>Line = 8, Col = 15\<rparr>\<rparr>)
        (scenarioInfo (defaultParams\<lparr>ExcludeOfficialActions := Some False,
                                     EnforcePinHash := Some False\<rparr>))
     = Returns None
   \<and> TrimSpace ''actions/checkout@v4'' = ''actions/checkout@v4''
   \<and> drop (length ''actions/checkout'' + 1) ''actions/checkout@v4'' = ''v4''"
proof -
  let ?u = "\<lparr>Value = ''actions/checkout@v4'', Pos = \<lparr>Line = 8, Col = 15\<rparr>\<rparr>"
  let ?a = "\<lparr>ID = ''actions/checkout'', Owner = ''actions'', Name = ''checkout'', Ref = ''v4''\<rparr>"
  let ?on = "scenarioInfo (defaultParams\<lparr>ExcludeOfficialActions := Some False\<rparr>)"
  let ?off = "scenarioInfo (defaultParams\<lparr>ExcludeOfficialActions := Some False,
                                           EnforcePinHash := Some False\<rparr>)"
  have parse: "ParseActionUses (Value ?u) = Inr ?a"
    by (simp add: parse_eval)
  have notLocal: "\<not> IsLocalReusableWorkflows ?a"
    by (simp add: IsLocalReusableWorkflows_def)
  have notPinned: "\<not> IsPinnedBySHA ?a"
    by (simp add: IsPinnedBySHA_def IsSHA_def)
  have archived: "isArchivedAction scenarioLinter ?a = Inr (False, None)"
    by (simp add: isArchivedAction_def query_def scenario_eval)
  have rel_on: "RelPath scenarioLinter ?on = Inr ''/repo/.github/workflows/ci.yaml''"
    and rel_off: "RelPath scenarioLinter ?off = Inr ''/repo/.github/workflows/ci.yaml''"
    by (simp_all add: RelPath_def scenario_eval)
  have official_on: "ExcludeOfficialActions (Params ?on) = Some False"
    and official_off: "ExcludeOfficialActions (Params ?off) = Some False"
    and notOfficial: "\<not> (False \<and> Owner ?a \<in> set OfficialCreators)"
    by (simp_all add: scenario_eval)
  have allow_on: "Owner ?a \<notin> set (CreatorAllowlist (Params ?on))"
    "RepoID ?a \<notin> set (ActionAllowlist (Params ?on))"
    and allow_off: "Owner ?a \<notin> set (CreatorAllowlist (Params ?off))"
    "RepoID ?a \<notin> set (ActionAllowlist (Params ?off))"
    by (simp_all add: scenario_eval)
  have verified_on: "ExcludeVerifiedCreators (Params ?on) = Some False"
    and verified_off: "ExcludeVerifiedCreators (Params ?off) = Some False"
    and notVerified: "\<not> (False \<and> RepoID ?a \<in> set actionsByVerifiedCreators)"
    by (simp_all add: scenario_eval)
  have allowed_on: "False \<longrightarrow> AllowArchivedRepo (Params ?on) = Some True
                             \<and> (None :: string option) \<noteq> None"
    and allowed_off: "False \<longrightarrow> AllowArchivedRepo (Params ?off) = Some True
                              \<and> (None :: string option) \<noteq> None"
    by simp_all
  have org_on: "checkVerifiedOrg scenarioLinter (Owner ?a) (Params ?on) = None"
    and org_off: "checkVerifiedOrg scenarioLinter (Owner ?a) (Params ?off) = None"
    by (simp_all add: checkVerifiedOrg_def scenario_eval)
  have enforce_on: "EnforcePinHash (Params ?on) = Some True"
    and enforce_off: "EnforcePinHash (Params ?off) = Some False"
    by (simp_all add: scenario_eval)
  note on = unpinned_rule [OF parse rel_on notLocal official_on notOfficial allow_on
      verified_on notVerified archived allowed_on org_on notPinned enforce_on]
  note off = unpinned_rule [OF parse rel_off notLocal official_off notOfficial allow_off
      verified_off notVerified archived allowed_off org_off notPinned enforce_off]
  show ?thesis
    using on off by (simp add: RepoID_def scenarioInfo_def)
qed

text \<open>
  Claim C6, as stated: for a string with no \<open>@\<close> the parser never fails, and the
  reference is allowed under every policy. The first half fails: \<open>ParseActionUses\<close>
  returns an error unless the string splits at \<open>@\<close> into two parts, and its own test
  expects that error for \<open>invalid\<close>.
\<close>

theorem ParseActionUses_fails_without_at:
  "CHR ''@'' \<notin> set ''invalid''
   \<and> ParseActionUses ''invalid''
       = Inl (''unexpected '' @ [CHR 0x27] @ ''uses'' @ [CHR 0x27] @ '' value: invalid'')"
  by (simp add: parse_eval)

text \<open>
  Claim C6, amended: for a string with no \<open>@\<close>, \<open>ParseActionUses\<close> returns the error
  \<open>unexpected 'uses' value\<close>; but \<open>lintJobUses\<close> does not call the parser for such a
  value: it returns nil, so the reference is allowed, with every collaborator, at every
  position and under every policy parameter set.
\<close>

theorem no_at_sign_is_allowed:
  assumes "CHR ''@'' \<notin> set (Value u)"
  shows "ParseActionUses (Value u)
           = Inl (''unexpected '' @ [CHR 0x27] @ ''uses'' @ [CHR 0x27] @ '' value: ''
                  @ TrimSpace (Value u))
         \<and> lintJobUses l (Some u) wfLintInfo = Returns None"
proof -
  have "count_list (Value u) CHR ''@'' = 0"
    using assms by (simp add: count_list_0_iff)
  then have one: "length (Split (Value u) CHR ''@'') = 1"
    and trimmed: "length (Split (TrimSpace (Value u)) CHR ''@'') = 1"
    by (simp_all add: length_Split count_TrimSpace_at)
  have "lintJobUses l (Some u) wfLintInfo = Returns None"
    using one by (simp add: lintJobUses_def)
  moreover have "ParseActionUses (Value u)
      = Inl (''unexpected '' @ [CHR 0x27] @ ''uses'' @ [CHR 0x27] @ '' value: ''
             @ TrimSpace (Value u))"
    using trimmed by (simp add: ParseActionUses_def Let_def)
  ultimately show ?thesis by simp
qed

theorem no_at_sign_is_allowed_witness:
  "ParseActionUses ''docker://alpine:3.8''
     = Inl (''unexpected '' @ [CHR 0x27] @ ''uses'' @ [CHR 0x27]
            @ '' value: docker://alpine:3.8'')
   \<and> lintJobUses scenarioLinter
        (Some \<lparr>Value = ''docker://alpine:3.8'', Pos = \<lparr>Line = 8, Col = 15\<rparr>\<rparr>)
        (scenarioInfo zeroParams)
     = Returns None"
proof -
  have h: "CHR ''@'' \<notin> set (Value \<lparr>Value = ''docker://alpine:3.8'', Pos = \<lparr>Line = 8, Col = 15\<rparr>\<rparr>)"
    by simp
  have "TrimSpace ''docker://alpine:3.8'' = ''docker://alpine:3.8''"
    by (simp add: parse_eval)
  then show ?thesis
    using no_at_sign_is_allowed [OF h, of scenarioLinter "scenarioInfo zeroParams"] by simp
qed

text \<open>
  Claim C8: for a reference whose repository is reported as archived, with
  \<open>allow-archived-repo\<close> false, the violation has the kind \<open>ArchivedActionUsed\<close>. The test
  \<open>archived official action\<close> expects that kind, the constant \<open>KindArchivedActionUsed\<close>;
  \<open>lintJobUses\<close> passes the string \<open>archived action is not allowed\<close> instead, which is not
  the constant. The message and the position are as the claim says.
\<close>

theorem archived_action_kind:
  "lintJobUses scenarioLinter
     (Some \<lparr>Value = ''actions/create-release@v1'', Pos = \<lparr>Line = 8, Col = 15\<rparr>\<rparr>)
     (scenarioInfo (defaultParams\<lparr>ExcludeOfficialActions := Some False,
                                  AllowArchivedRepo := Some False\<rparr>))
   = Returns (Some
       \<lparr>LintError =
          \<lparr>Message = ''archived action found: repo=actions/create-release, archived-at=2021-03-04'',
           Filepath = ''/repo/.github/workflows/ci.yaml'', ErrLine = 8, Column = 15,
           Kind = ''archived action is not allowed''\<rparr>,
        WorkflowAbsFilePath = ''/repo/.github/workflows/ci.yaml'', Project = None\<rparr>)
   \<and> ''archived action is not allowed'' \<noteq> KindArchivedActionUsed"
  by (simp add: lint_eval scenario_eval parse_eval KindArchivedActionUsed_def)

text \<open>
  Claim C9, as stated: every reference that is allowlisted by its creator or by its
  action ID, and whose ref is not a SHA, has its tag resolved, and an error of the
  resolver makes the outcome a runtime error. The rule of the official actions comes
  first in the chain: with \<open>exclude-official-actions\<close> true (the default) and \<open>actions\<close> in
  the creator allowlist, \<open>actions/checkout@v4\<close> is allowed although the resolver fails.
\<close>

theorem allowlisted_official_action_skips_resolver:
  "ResolveFromTagContext offlineLinter (''actions'', ''checkout'') ''v4''
     = Inl ''could not resolve the tag''
   \<and> lintJobUses offlineLinter
        (Some \<lparr>Value = ''actions/checkout@v4'', Pos = \<lparr>Line = 8, Col = 15\<rparr>\<rparr>)
        (scenarioInfo (defaultParams\<lparr>CreatorAllowlist := [''actions'']\<rparr>))
     = Returns None"
  by (simp add: lint_eval scenario_eval parse_eval)

text \<open>
  Claim C9, amended: for every reference that reaches the allowlist rule (it parses,
  the relative path of the workflow is found, it is not a local reusable workflow and it
  is not an official action excluded by \<open>exclude-official-actions\<close>) and that is
  allowlisted by its creator or by its action ID, with a ref that is not a SHA, the
  outcome is decided by the tag resolver: an error of the resolver gives a lint error of
  kind \<open>RuntimeError\<close> at the position of the \<open>uses\<close> value, a resolved tag gives nil.
\<close>

theorem allowlisted_unpinned_resolves_tag:
  assumes parse: "ParseActionUses (Value u) = Inr action"
    and rel: "RelPath l wfLintInfo = Inr relPath"
    and notLocal: "\<not> IsLocalReusableWorkflows action"
    and official: "ExcludeOfficialActions (Params wfLintInfo) = Some excludeOfficial"
      "\<not> (excludeOfficial \<and> Owner action \<in> set OfficialCreators)"
    and allowlisted: "Owner action \<in> set (CreatorAllowlist (Params wfLintInfo))
                      \<or> RepoID action \<in> set (ActionAllowlist (Params wfLintInfo))"
    and notPinned: "\<not> IsPinnedBySHA action"
  shows "lintJobUses l (Some u) wfLintInfo =
           (case ResolveFromTagContext l (Repository action) (Ref action) of
              Inl err \<Rightarrow>
                Returns (Some
                  \<lparr>LintError =
                     \<lparr>Message = ''failed to resolve git tag: '' @ err,
                      Filepath = relPath,
                      ErrLine = Line (Pos u),
                      Column = Col (Pos u),
                      Kind = KindRuntimeError\<rparr>,
                   WorkflowAbsFilePath = FilePath wfLintInfo,
                   Project = WfProject wfLintInfo\<rparr>)
            | Inr gitTag \<Rightarrow> Returns None)"
proof -
  have items: "length (Split (Value u) CHR ''@'') = 2"
    by (rule ParseActionUses_items [OF parse])
  have "fst (isAllowlisted action (Params wfLintInfo))"
    using allowlisted by (auto simp: isAllowlisted_def)
  then show ?thesis
    using notLocal official(2) notPinned
    by (auto simp: lintJobUses_def Let_def items rel parse official(1) case_prod_beta
        newLintError_def returnError_def split: sum.splits)
qed

theorem allowlisted_unpinned_resolves_tag_witness:
  "lintJobUses offlineLinter
     (Some \<lparr>Value = ''google-github-actions/auth@v2'', Pos = \<lparr>Line = 9, Col = 13\<rparr>\<rparr>)
     (scenarioInfo (defaultParams\<lparr>ActionAllowlist := [''google-github-actions/auth'']\<rparr>))
   = Returns (Some
       \<lparr>LintError =
          \<lparr>Message = ''failed to resolve git tag: could not resolve the tag'',
           Filepath = ''/repo/.github/workflows/ci.yaml'', ErrLine = 9, Column = 13,
           Kind = KindRuntimeError\<rparr>,
        WorkflowAbsFilePath = ''/repo/.github/workflows/ci.yaml'', Project = None\<rparr>)
   \<and> lintJobUses scenarioLinter
        (Some \<lparr>Value = ''google-github-actions/auth@v2'', Pos = \<lparr>Line = 9, Col = 13\<rparr>\<rparr>)
        (scenarioInfo (defaultParams\<lparr>ActionAllowlist := [''google-github-actions/auth'']\<rparr>))
     = Returns None"
proof -
  let ?u = "\<lparr>Value = ''google-github-actions/auth@v2'', Pos = \<lparr>Line = 9, Col = 13\<rparr>\<rparr>"
  let ?a = "\<lparr>ID = ''google-github-actions/auth'', Owner = ''google-github-actions'',
             Name = ''auth'', Ref = ''v2''\<rparr>"
  let ?info = "scenarioInfo (defaultParams\<lparr>ActionAllowlist := [''google-github-actions/auth'']\<rparr>)"
  have parse: "ParseActionUses (Value ?u) = Inr ?a"
    by (simp add: parse_eval)
  have notLocal: "\<not> IsLocalReusableWorkflows ?a"
    by (simp add: IsLocalReusableWorkflows_def)
  have notPinned: "\<not> IsPinnedBySHA ?a"
    by (simp add: IsPinnedBySHA_def IsSHA_def)
  have official: "ExcludeOfficialActions (Params ?info) = Some True"
    "\<not> (True \<and> Owner ?a \<in> set OfficialCreators)"
    by (simp_all add: scenario_eval OfficialCreators_def)
  have allowlisted: "Owner ?a \<in> set (CreatorAllowlist (Params ?info))
                     \<or> RepoID ?a \<in> set (ActionAllowlist (Params ?info))"
    by (simp add: scenario_eval RepoID_def)
  have rel1: "RelPath offlineLinter ?info = Inr ''/repo/.github/workflows/ci.yaml''"
    by (simp add: RelPath_def scenario_eval)
  have rel2: "RelPath scenarioLinter ?info = Inr ''/repo/.github/workflows/ci.yaml''"
    by (simp add: RelPath_def scenario_eval)
  show ?thesis
    using allowlisted_unpinned_resolves_tag [OF parse rel1 notLocal official allowlisted notPinned]
      allowlisted_unpinned_resolves_tag [OF parse rel2 notLocal official allowlisted notPinned]
    by (simp add: scenario_eval Repository_def)
qed

section \<open>The pipeline and the aggregation\<close>

lemma fanIn_mset: "fanIn channels stream \<Longrightarrow> mset stream = mset (concat channels)"
  by (induction rule: fanIn.induct) auto

lemma fanIn_closed_channel: "fanIn channels stream \<Longrightarrow> fanIn ([] # channels) stream"
proof (induction rule: fanIn.induct)
  case (closed channels)
  then show ?case by (simp add: fanIn.closed)
next
  case (receive before rest after stream x)
  show ?case
    using fanIn.receive [of "[] # before" rest after stream x] receive.IH by simp
qed

lemma fanIn_first_channel:
  "fanIn channels stream \<Longrightarrow> fanIn (c # channels) (c @ stream)"
proof (induction c)
  case Nil
  then show ?case by (simp add: fanIn_closed_channel)
next
  case (Cons x c)
  show ?case
    using fanIn.receive [of "[]" c channels "c @ stream" x] Cons by simp
qed

text \<open>One merged stream always exists: the channels drained one after the other.\<close>

lemma fanIn_concat: "fanIn channels (concat channels)"
proof (induction channels)
  case Nil
  show ?case by (simp add: fanIn.closed)
next
  case (Cons c channels)
  then show ?case by (simp add: fanIn_first_channel)
qed

lemma collectResults_eq:
  "collectResults stream (errs, logged) =
     (errs @ concat (map LintErrors (filter (\<lambda>r. RuntimeError r = None) stream)),
      logged @ List.map_filter RuntimeError stream)"
  by (induction stream arbitrary: errs logged) (auto split: option.splits)

lemma mset_concat_map: "mset (concat (map f xs)) = (\<Sum>x\<in>#mset xs. mset (f x))"
  by (induction xs) auto

lemma mset_concat_map_cong:
  "mset xs = mset ys \<Longrightarrow> mset (concat (map f xs)) = mset (concat (map f ys))"
  by (simp add: mset_concat_map)

lemma mset_map_filter_cong:
  assumes "mset xs = mset ys"
  shows "mset (List.map_filter f xs) = mset (List.map_filter f ys)"
proof -
  have "mset (List.map_filter f zs)
          = image_mset (the \<circ> f) (filter_mset (\<lambda>x. f x \<noteq> None) (mset zs))" for zs
    by (induction zs) (auto split: option.splits)
  then show ?thesis using assms by simp
qed

lemma map_filter_None: "\<forall>x\<in>set xs. f x = None \<Longrightarrow> List.map_filter f xs = []"
  by (induction xs) auto

lemma dispatchFiles_lintErrors:
  "dispatchFiles l g infos (lintErrors, channels) = Returns (lintErrors', channels')
   \<Longrightarrow> lintErrors' = lintErrors"
  by (induction infos arbitrary: channels)
     (auto simp: newLintError_def split: exec.splits sum.splits)

lemma runLinters_map:
  "\<forall>s\<in>set steps. runLinter l wfLintInfo s = Returns [f s]
   \<Longrightarrow> runLinters l wfLintInfo steps = Returns (map (\<lambda>s. [f s]) steps)"
  by (induction steps) auto

lemma dispatch_scenario:
  "dispatchFiles scenarioLinter \<lparr>NumWorkers = 4\<rparr> [scenarioInfo defaultParams] ([], [])
   = Returns ([],
       [[\<lparr>LintErrors =
            [\<lparr>LintError =
                \<lparr>Message = ''failed to resolve git tags: failed to resolve git tags from a ref: repo=tj-actions/changed-files, ref=1234567890123456789012345678901234567890, error=1234567890123456789012345678901234567890 is neither a commit nor blob'',
                 Filepath = ''/repo/.github/workflows/ci.yaml'', ErrLine = 8, Column = 40,
                 Kind = KindRuntimeError\<rparr>,
              WorkflowAbsFilePath = ''/repo/.github/workflows/ci.yaml'', Project = None\<rparr>],
          RuntimeError = None\<rparr>],
        [\<lparr>LintErrors =
            [\<lparr>LintError =
                \<lparr>Message = ''invalid ref value: action=bufbuild/buf-action, expected=SHA, actual=v1.0.2'',
                 Filepath = ''/repo/.github/workflows/ci.yaml'', ErrLine = 9, Column = 35,
                 Kind = KindUnpinned\<rparr>,
              WorkflowAbsFilePath = ''/repo/.github/workflows/ci.yaml'', Project = None\<rparr>],
          RuntimeError = None\<rparr>]])"
  by (simp add: LintWorkflowFileContext_def LintWorkflowContext_def runLinter_def
      lint_eval scenario_eval parse_eval)

text \<open>
  Claim C1, as stated: the list that \<open>LintWorkflowFilesContext\<close> returns never holds an
  entry of kind \<open>RuntimeError\<close>. It does: when the rule engine cannot resolve a SHA,
  \<open>lintJobUses\<close> returns a lint error of kind \<open>RuntimeError\<close>, the task sends it in
  \<open>LintErrors\<close> with a nil \<open>RuntimeError\<close>, and the loop appends it. This run of the test
  \<open>include multiple errors\<close> returns it first, and logs nothing.
\<close>

theorem runtime_error_kind_is_returned:
  "LintWorkflowFilesContext scenarioLinter \<lparr>NumWorkers = 4\<rparr> [scenarioInfo defaultParams]
     (Returns
        ([\<lparr>LintError =
             \<lparr>Message = ''failed to resolve git tags: failed to resolve git tags from a ref: repo=tj-actions/changed-files, ref=1234567890123456789012345678901234567890, error=1234567890123456789012345678901234567890 is neither a commit nor blob'',
              Filepath = ''/repo/.github/workflows/ci.yaml'', ErrLine = 8, Column = 40,
              Kind = KindRuntimeError\<rparr>,
           WorkflowAbsFilePath = ''/repo/.github/workflows/ci.yaml'', Project = None\<rparr>,
          \<lparr>LintError =
             \<lparr>Message = ''invalid ref value: action=bufbuild/buf-action, expected=SHA, actual=v1.0.2'',
              Filepath = ''/repo/.github/workflows/ci.yaml'', ErrLine = 9, Column = 35,
              Kind = KindUnpinned\<rparr>,
           WorkflowAbsFilePath = ''/repo/.github/workflows/ci.yaml'', Project = None\<rparr>],
         []))"
  using LintWorkflowFilesContext.returns [OF dispatch_scenario fanIn_concat]
  by simp

text \<open>
  Claim C1, amended: \<open>LintWorkflowFilesContext\<close> returns, in some order, exactly the lint
  errors of the results whose \<open>RuntimeError\<close> field is nil, from any task of any
  workflow, and among them the lint errors of kind \<open>RuntimeError\<close> that the rule engine
  produces; it logs, and leaves out of the returned list, exactly the results whose
  \<open>RuntimeError\<close> field is set, which are those of the workflows that do not parse.
\<close>

theorem aggregation_partitions_results:
  assumes "LintWorkflowFilesContext l g infos (Returns (errs, logged))"
  shows "\<exists>channels. dispatchFiles l g infos ([], []) = Returns ([], channels)
           \<and> mset errs = mset (concat (map LintErrors
                                   (filter (\<lambda>r. RuntimeError r = None) (concat channels))))
           \<and> mset logged = mset (List.map_filter RuntimeError (concat channels))"
  using assms
proof (cases rule: LintWorkflowFilesContext.cases)
  case (returns lintErrors executorChannels stream)
  have le: "lintErrors = []"
    using dispatchFiles_lintErrors [OF returns(2)] by simp
  have st: "mset stream = mset (concat executorChannels)"
    by (rule fanIn_mset [OF returns(3)])
  have "mset (filter (\<lambda>r. RuntimeError r = None) stream)
          = mset (filter (\<lambda>r. RuntimeError r = None) (concat executorChannels))"
    using st by simp
  then have a: "mset (concat (map LintErrors (filter (\<lambda>r. RuntimeError r = None) stream)))
          = mset (concat (map LintErrors
                    (filter (\<lambda>r. RuntimeError r = None) (concat executorChannels))))"
    by (rule mset_concat_map_cong)
  have b: "mset (List.map_filter RuntimeError stream)
             = mset (List.map_filter RuntimeError (concat executorChannels))"
    using st by (rule mset_map_filter_cong)
  have "errs = concat (map LintErrors (filter (\<lambda>r. RuntimeError r = None) stream))"
    and "logged = List.map_filter RuntimeError stream"
    using returns(1) le by (simp_all add: collectResults_eq)
  then show ?thesis
    using a b le returns(2) by auto
qed

theorem aggregation_partitions_results_witness:
  "LintWorkflowFilesContext brokenLinter \<lparr>NumWorkers = 4\<rparr> [scenarioInfo defaultParams]
     (Returns ([], [''failed to parse workflow: path=/repo/.github/workflows/ci.yaml, msg=workflow is empty'']))
   \<and> (\<exists>channels.
         dispatchFiles brokenLinter \<lparr>NumWorkers = 4\<rparr> [scenarioInfo defaultParams] ([], [])
           = Returns ([], channels)
         \<and> mset ([] :: Error list)
             = mset (concat (map LintErrors
                       (filter (\<lambda>r. RuntimeError r = None) (concat channels))))
         \<and> mset [''failed to parse workflow: path=/repo/.github/workflows/ci.yaml, msg=workflow is empty'']
             = mset (List.map_filter RuntimeError (concat channels)))"
proof -
  have d: "dispatchFiles brokenLinter \<lparr>NumWorkers = 4\<rparr> [scenarioInfo defaultParams] ([], [])
             = Returns ([],
                 [[\<lparr>LintErrors = [],
                    RuntimeError = Some ''failed to parse workflow: path=/repo/.github/workflows/ci.yaml, msg=workflow is empty''\<rparr>]])"
    by (simp add: LintWorkflowFileContext_def LintWorkflowContext_def scenario_eval)
  have h: "LintWorkflowFilesContext brokenLinter \<lparr>NumWorkers = 4\<rparr> [scenarioInfo defaultParams]
             (Returns ([], [''failed to parse workflow: path=/repo/.github/workflows/ci.yaml, msg=workflow is empty'']))"
    using LintWorkflowFilesContext.returns [OF d fanIn_concat] by simp
  show ?thesis
    using h aggregation_partitions_results [OF h] by blast
qed

text \<open>The policy of the scenarios: \<open>enforce-pin-hash\<close> set, every other flag left to its default.\<close>

lemma NewWorkflowLintParams_enforce:
  "NewWorkflowLintParams [WithEnforcePinHash True] = Inr defaultParams"
  by (simp add: NewWorkflowLintParams_def WithEnforcePinHash_def zeroParams_def orDefault_def
      defaultParams_def DefaultExcludeOfficialActions_def DefaultExcludeVerifiedCreators_def
      DefaultAllowOnlyAllowlistedHash_def DefaultAllowArchivedRepo_def DefaultEnforcePinHash_def
      DefaultEnforceVerifiedOrg_def)

text \<open>
  What a run returns when no result has its \<open>RuntimeError\<close> set: the lint errors of all
  the results, in some order, and an empty log.
\<close>

lemma returned_errors:
  assumes dispatch: "dispatchFiles l g infos ([], []) = Returns ([], channels)"
    and ok: "\<forall>r\<in>set (concat channels). RuntimeError r = None"
    and run: "LintWorkflowFilesContext l g infos out"
  shows "\<exists>errs. out = Returns (errs, [])
           \<and> mset errs = mset (concat (map LintErrors (concat channels)))"
  using run
proof (cases rule: LintWorkflowFilesContext.cases)
  case (returns lintErrors executorChannels stream)
  from returns(2) dispatch have le: "lintErrors = []" and ch: "executorChannels = channels"
    by simp_all
  have st: "mset stream = mset (concat channels)"
    using fanIn_mset [OF returns(3)] ch by simp
  then have "set stream = set (concat channels)"
    by (rule mset_eq_setD)
  then have all: "\<forall>r\<in>set stream. RuntimeError r = None"
    using ok by simp
  then have "filter (\<lambda>r. RuntimeError r = None) stream = stream"
    by simp
  then have "collectResults stream (lintErrors, []) = (concat (map LintErrors stream), [])"
    using all by (simp add: collectResults_eq le map_filter_None)
  moreover have "mset (concat (map LintErrors stream))
                   = mset (concat (map LintErrors (concat channels)))"
    using st by (rule mset_concat_map_cong)
  ultimately show ?thesis
    using returns(1) by simp
next
  case panics
  then show ?thesis using dispatch by simp
next
  case blocks
  then show ?thesis using dispatch by simp
qed

text \<open>
  Claim C2, as stated: a workflow with two action steps, one with a ref of forty
  hexadecimal digits that the resolver cannot resolve and one with a ref that is an
  unpinned tag, under a policy with \<open>enforce-pin-hash\<close> true, gives exactly two
  violations. The rules before the pin rules decide first: when the unpinned step is
  \<open>actions/checkout@v4\<close> and the policy is the one of the test (\<open>enforce-pin-hash\<close> true,
  the official actions excluded by default), that step is allowed, and every run
  returns one violation, never two.
\<close>

theorem official_unpinned_step_gives_one_violation:
  "EnforcePinHash (Params (scenarioInfo defaultParams)) = Some True
   \<and> LintWorkflowFilesContext officialLinter \<lparr>NumWorkers = 4\<rparr> [scenarioInfo defaultParams]
       (Returns
          ([\<lparr>LintError =
               \<lparr>Message = ''failed to resolve git tags: failed to resolve git tags from a ref: repo=tj-actions/changed-files, ref=1234567890123456789012345678901234567890, error=1234567890123456789012345678901234567890 is neither a commit nor blob'',
                Filepath = ''/repo/.github/workflows/ci.yaml'', ErrLine = 8, Column = 40,
                Kind = KindRuntimeError\<rparr>,
             WorkflowAbsFilePath = ''/repo/.github/workflows/ci.yaml'', Project = None\<rparr>],
           []))
   \<and> \<not> (\<exists>errs. LintWorkflowFilesContext officialLinter \<lparr>NumWorkers = 4\<rparr>
                     [scenarioInfo defaultParams] (Returns (errs, []))
                 \<and> length errs = 2)"
proof -
  let ?E = "\<lparr>LintError =
               \<lparr>Message = ''failed to resolve git tags: failed to resolve git tags from a ref: repo=tj-actions/changed-files, ref=1234567890123456789012345678901234567890, error=1234567890123456789012345678901234567890 is neither a commit nor blob'',
                Filepath = ''/repo/.github/workflows/ci.yaml'', ErrLine = 8, Column = 40,
                Kind = KindRuntimeError\<rparr>,
             WorkflowAbsFilePath = ''/repo/.github/workflows/ci.yaml'', Project = None\<rparr>"
  let ?channels = "[[\<lparr>LintErrors = [?E], RuntimeError = None\<rparr>],
                    [\<lparr>LintErrors = [], RuntimeError = None\<rparr>]]"
  have dispatch: "dispatchFiles officialLinter \<lparr>NumWorkers = 4\<rparr> [scenarioInfo defaultParams]
                    ([], []) = Returns ([], ?channels)"
    by (simp add: LintWorkflowFileContext_def LintWorkflowContext_def runLinter_def
        lint_eval scenario_eval officialLinter_def officialWorkflow_def parse_eval)
  have policy: "EnforcePinHash (Params (scenarioInfo defaultParams)) = Some True"
    by (simp add: scenario_eval)
  have one: "LintWorkflowFilesContext officialLinter \<lparr>NumWorkers = 4\<rparr>
               [scenarioInfo defaultParams] (Returns ([?E], []))"
    using LintWorkflowFilesContext.returns [OF dispatch fanIn_concat] by simp
  have never: "\<not> (\<exists>errs. LintWorkflowFilesContext officialLinter \<lparr>NumWorkers = 4\<rparr>
                              [scenarioInfo defaultParams] (Returns (errs, []))
                          \<and> length errs = 2)"
  proof
    assume "\<exists>errs. LintWorkflowFilesContext officialLinter \<lparr>NumWorkers = 4\<rparr>
                      [scenarioInfo defaultParams] (Returns (errs, []))
                  \<and> length errs = 2"
    then obtain errs where run: "LintWorkflowFilesContext officialLinter \<lparr>NumWorkers = 4\<rparr>
                                   [scenarioInfo defaultParams] (Returns (errs, []))"
      and two: "length errs = 2"
      by blast
    have "\<forall>r\<in>set (concat ?channels). RuntimeError r = None"
      by simp
    from returned_errors [OF dispatch this run] have "mset errs = {#?E#}"
      by simp
    then have "size (mset errs) = 1"
      by simp
    then show False
      using two by simp
  qed
  show ?thesis
    using policy one never by blast
qed

text \<open>
  Claim C2, amended: a workflow that has a name and whose action steps are two, one
  with a ref of forty hexadecimal digits that the resolver cannot resolve and one with a
  ref that is not a SHA, under a policy with \<open>enforce-pin-hash\<close> true, when both
  references reach the pin rules of the chain (the relative path of the workflow is
  found; neither reference is a local reusable workflow, an excluded official action,
  allowlisted or an excluded verified creator's; the archived lookup answers and the
  repository is not archived or archived repositories are allowed; the check of the
  organisation raises nothing) and the number of workers is at least one: the
  top-level call returns, and whatever the order in which the tasks' results arrive, it
  returns exactly two violations, one of kind \<open>RuntimeError\<close> for the SHA and one of kind
  \<open>Unpinned\<close> for the other ref, and logs nothing. The workflow may hold any number of
  steps that run no action.
\<close>

theorem scenario_C:
  assumes read: "os_ReadFile l (FilePath wfLintInfo) = Inr content"
    and parsed: "actionlint_Parse l content = (workflow, [])"
    and named: "WorkflowName workflow = Some name"
    and steps: "mset (concat (map (\<lambda>(name, job). Steps job) (Jobs workflow)))
                  = {#\<lparr>Exec = ExecAction (Some u1)\<rparr>, \<lparr>Exec = ExecAction (Some u2)\<rparr>#}
                    + mset (replicate n \<lparr>Exec = ExecRun\<rparr>)"
    and workers: "1 \<le> NumWorkers g"
    and rel: "RelPath l wfLintInfo = Inr relPath"
    and enforce: "EnforcePinHash (Params wfLintInfo) = Some True"
    and official: "ExcludeOfficialActions (Params wfLintInfo) = Some excludeOfficial"
    and verified: "ExcludeVerifiedCreators (Params wfLintInfo) = Some excludeVerified"
    and ref1: "ParseActionUses (Value u1) = Inr a1" "IsPinnedBySHA a1"
      "ResolveFromHashContext l (Repository a1) (Ref a1) = Inl err"
    and ref2: "ParseActionUses (Value u2) = Inr a2" "\<not> IsPinnedBySHA a2"
    and chain1: "\<not> IsLocalReusableWorkflows a1"
      "\<not> (excludeOfficial \<and> Owner a1 \<in> set OfficialCreators)"
      "\<not> fst (isAllowlisted a1 (Params wfLintInfo))"
      "\<not> (excludeVerified \<and> RepoID a1 \<in> set actionsByVerifiedCreators)"
      "isArchivedAction l a1 = Inr (archived1, at1)"
      "archived1 \<longrightarrow> AllowArchivedRepo (Params wfLintInfo) = Some True \<and> at1 \<noteq> None"
      "checkVerifiedOrg l (Owner a1) (Params wfLintInfo) = None"
    and chain2: "\<not> IsLocalReusableWorkflows a2"
      "\<not> (excludeOfficial \<and> Owner a2 \<in> set OfficialCreators)"
      "\<not> fst (isAllowlisted a2 (Params wfLintInfo))"
      "\<not> (excludeVerified \<and> RepoID a2 \<in> set actionsByVerifiedCreators)"
      "isArchivedAction l a2 = Inr (archived2, at2)"
      "archived2 \<longrightarrow> AllowArchivedRepo (Params wfLintInfo) = Some True \<and> at2 \<noteq> None"
      "checkVerifiedOrg l (Owner a2) (Params wfLintInfo) = None"
  shows "(\<exists>out. LintWorkflowFilesContext l g [wfLintInfo] out)
         \<and> (\<forall>out. LintWorkflowFilesContext l g [wfLintInfo] out \<longrightarrow>
              (\<exists>errs. out = Returns (errs, [])
                 \<and> mset errs =
                     {#\<lparr>LintError =
                          \<lparr>Message = ''failed to resolve git tags: failed to resolve git tags from a ref: repo=''
                                      @ Owner a1 @ ''/'' @ Name a1 @ '', ref='' @ Ref a1
                                      @ '', error='' @ err,
                           Filepath = relPath,
                           ErrLine = Line (Pos u1),
                           Column = Col (Pos u1) + int (length (ID a1)) + 1,
                           Kind = KindRuntimeError\<rparr>,
                        WorkflowAbsFilePath = FilePath wfLintInfo,
                        Project = WfProject wfLintInfo\<rparr>,
                       \<lparr>LintError =
                          \<lparr>Message = ''invalid ref value: action='' @ RepoID a2
                                      @ '', expected=SHA, actual='' @ Ref a2,
                           Filepath = relPath,
                           ErrLine = Line (Pos u2),
                           Column = Col (Pos u2) + int (length (ID a2)) + 1,
                           Kind = KindUnpinned\<rparr>,
                        WorkflowAbsFilePath = FilePath wfLintInfo,
                        Project = WfProject wfLintInfo\<rparr>#}))"
proof -
  let ?E1 = "\<lparr>LintError =
                \<lparr>Message = ''failed to resolve git tags: failed to resolve git tags from a ref: repo=''
                            @ Owner a1 @ ''/'' @ Name a1 @ '', ref='' @ Ref a1
                            @ '', error='' @ err,
                 Filepath = relPath,
                 ErrLine = Line (Pos u1),
                 Column = Col (Pos u1) + int (length (ID a1)) + 1,
                 Kind = KindRuntimeError\<rparr>,
              WorkflowAbsFilePath = FilePath wfLintInfo,
              Project = WfProject wfLintInfo\<rparr>"
  let ?E2 = "\<lparr>LintError =
                \<lparr>Message = ''invalid ref value: action='' @ RepoID a2
                            @ '', expected=SHA, actual='' @ Ref a2,
                 Filepath = relPath,
                 ErrLine = Line (Pos u2),
                 Column = Col (Pos u2) + int (length (ID a2)) + 1,
                 Kind = KindUnpinned\<rparr>,
              WorkflowAbsFilePath = FilePath wfLintInfo,
              Project = WfProject wfLintInfo\<rparr>"
  let ?s1 = "\<lparr>Exec = ExecAction (Some u1)\<rparr>"
  let ?s2 = "\<lparr>Exec = ExecAction (Some u2)\<rparr>"
  let ?run = "\<lparr>Exec = ExecRun\<rparr>"
  define stepList where "stepList = concat (map (\<lambda>(name, job). Steps job) (Jobs workflow))"
  define f where "f s = (if s = ?s1 then \<lparr>LintErrors = [?E1], RuntimeError = None\<rparr>
                         else if s = ?s2 then \<lparr>LintErrors = [?E2], RuntimeError = None\<rparr>
                         else \<lparr>LintErrors = [], RuntimeError = None\<rparr>)" for s
  have steps': "mset stepList = {#?s1, ?s2#} + mset (replicate n ?run)"
    unfolding stepList_def by (rule steps)
  have resolve: "resolveGitTagNamesFromSha l (Repository a1) (Ref a1)
                   = Inl (''failed to resolve git tags from a ref: repo='' @ Owner a1 @ ''/''
                          @ Name a1 @ '', ref='' @ Ref a1 @ '', error='' @ err)"
    using ref1(3) by (simp add: resolveGitTagNamesFromSha_def Repository_def)
  have l1: "lintJobUses l (Some u1) wfLintInfo = Returns (Some ?E1)"
    using ref1(2)
    by (simp add: lintJobUses_pin_rules [OF ref1(1) rel chain1(1) official chain1(2,3)
          verified chain1(4,5,6,7)] resolve newLintError_def returnError_def)
  have l2: "lintJobUses l (Some u2) wfLintInfo = Returns (Some ?E2)"
    using ref2(2)
    by (simp add: lintJobUses_pin_rules [OF ref2(1) rel chain2(1) official chain2(2,3)
          verified chain2(4,5,6,7)] enforce newLintError_def returnError_def)
  have "a1 \<noteq> a2"
    using ref1(2) ref2(2) by auto
  then have "u1 \<noteq> u2"
    using ref1(1) ref2(1) by auto
  then have distinct: "?s1 \<noteq> ?s2" by simp
  have each: "\<forall>s\<in>set stepList. runLinter l wfLintInfo s = Returns [f s]"
  proof
    fix s assume "s \<in> set stepList"
    then have "s \<in># mset stepList" by simp
    then have "s = ?s1 \<or> s = ?s2 \<or> s = ?run"
      unfolding steps' by (auto split: if_splits)
    then show "runLinter l wfLintInfo s = Returns [f s]"
      using distinct by (auto simp: runLinter_def f_def l1 l2)
  qed
  have channels: "runLinters l wfLintInfo stepList = Returns (map (\<lambda>s. [f s]) stepList)"
    by (rule runLinters_map [OF each])
  have "LintWorkflowContext l g wfLintInfo content = runLinters l wfLintInfo stepList"
    unfolding stepList_def LintWorkflowContext_def using workers by (simp add: parsed named)
  then have dispatch: "dispatchFiles l g [wfLintInfo] ([], [])
                    = Returns ([], map (\<lambda>s. [f s]) stepList)"
    by (simp add: LintWorkflowFileContext_def read channels)
  have ex: "\<exists>out. LintWorkflowFilesContext l g [wfLintInfo] out"
    using LintWorkflowFilesContext.returns [OF dispatch fanIn_concat] by blast
  have all: "\<exists>errs. out = Returns (errs, []) \<and> mset errs = {#?E1, ?E2#}"
    if run: "LintWorkflowFilesContext l g [wfLintInfo] out" for out
    using run
  proof (cases rule: LintWorkflowFilesContext.cases)
    case (returns lintErrors executorChannels stream)
    from returns(2) dispatch have le: "lintErrors = []"
      and ch: "executorChannels = map (\<lambda>s. [f s]) stepList"
      by simp_all
    have "mset stream = mset (concat executorChannels)"
      by (rule fanIn_mset [OF returns(3)])
    also have "concat executorChannels = map f stepList"
      unfolding ch by (induction stepList) auto
    finally have st: "mset stream = image_mset f (mset stepList)"
      by simp
    have ok: "\<forall>r\<in>set stream. RuntimeError r = None"
    proof
      fix r assume "r \<in> set stream"
      then have "r \<in># mset stream" by simp
      then show "RuntimeError r = None"
        unfolding st by (auto simp: f_def)
    qed
    then have keep: "filter (\<lambda>r. RuntimeError r = None) stream = stream"
      by simp
    have "collectResults stream (lintErrors, [])
            = (concat (map LintErrors stream), [])"
      using ok by (simp add: collectResults_eq le keep map_filter_None)
    moreover have "mset (concat (map LintErrors stream)) = {#?E1, ?E2#}"
    proof -
      have "mset stream = {#f ?s1, f ?s2#} + replicate_mset n (f ?run)"
        unfolding st steps' by simp
      moreover have "(\<Sum>r\<in>#replicate_mset n (f ?run). mset (LintErrors r)) = {#}"
        by (induction n) (simp_all add: f_def)
      ultimately have "(\<Sum>r\<in>#mset stream. mset (LintErrors r))
                         = mset (LintErrors (f ?s1)) + mset (LintErrors (f ?s2))"
        by simp
      then show ?thesis
        using distinct by (simp add: mset_concat_map f_def)
    qed
    ultimately show ?thesis
      using returns(1) by simp
  next
    case panics
    then show ?thesis using dispatch by simp
  next
    case blocks
    then show ?thesis using dispatch by simp
  qed
  show ?thesis
    using ex all by blast
qed

theorem scenario_C_witness:
  "\<exists>errs.
     LintWorkflowFilesContext scenarioLinter \<lparr>NumWorkers = 4\<rparr> [scenarioInfo defaultParams]
       (Returns (errs, []))
     \<and> mset errs =
         {#\<lparr>LintError =
              \<lparr>Message = ''failed to resolve git tags: failed to resolve git tags from a ref: repo=tj-actions/changed-files, ref=1234567890123456789012345678901234567890, error=1234567890123456789012345678901234567890 is neither a commit nor blob'',
               Filepath = ''/repo/.github/workflows/ci.yaml'', ErrLine = 8, Column = 40,
               Kind = KindRuntimeError\<rparr>,
            WorkflowAbsFilePath = ''/repo/.github/workflows/ci.yaml'', Project = None\<rparr>,
           \<lparr>LintError =
              \<lparr>Message = ''invalid ref value: action=bufbuild/buf-action, expected=SHA, actual=v1.0.2'',
               Filepath = ''/repo/.github/workflows/ci.yaml'', ErrLine = 9, Column = 35,
               Kind = KindUnpinned\<rparr>,
            WorkflowAbsFilePath = ''/repo/.github/workflows/ci.yaml'', Project = None\<rparr>#}"
proof -
  let ?u1 = "\<lparr>Value = ''tj-actions/changed-files@1234567890123456789012345678901234567890'',
              Pos = \<lparr>Line = 8, Col = 15\<rparr>\<rparr>"
  let ?u2 = "\<lparr>Value = ''bufbuild/buf-action@v1.0.2'', Pos = \<lparr>Line = 9, Col = 15\<rparr>\<rparr>"
  let ?a1 = "\<lparr>ID = ''tj-actions/changed-files'', Owner = ''tj-actions'',
              Name = ''changed-files'', Ref = ''1234567890123456789012345678901234567890''\<rparr>"
  let ?a2 = "\<lparr>ID = ''bufbuild/buf-action'', Owner = ''bufbuild'', Name = ''buf-action'',
              Ref = ''v1.0.2''\<rparr>"
  let ?info = "scenarioInfo defaultParams"
  have read: "os_ReadFile scenarioLinter (FilePath ?info) = Inr ''include multiple errors''"
    by (simp add: scenario_eval)
  have parsed: "actionlint_Parse scenarioLinter ''include multiple errors'' = (scenarioWorkflow, [])"
    by (simp add: scenario_eval)
  have named: "WorkflowName scenarioWorkflow
                 = Some \<lparr>Value = ''Test Workflow'', Pos = \<lparr>Line = 2, Col = 7\<rparr>\<rparr>"
    by (simp add: scenario_eval)
  have steps: "mset (concat (map (\<lambda>(name, job). Steps job) (Jobs scenarioWorkflow)))
                 = {#\<lparr>Exec = ExecAction (Some ?u1)\<rparr>, \<lparr>Exec = ExecAction (Some ?u2)\<rparr>#}
                   + mset (replicate 0 \<lparr>Exec = ExecRun\<rparr>)"
    by (simp add: scenario_eval)
  have workers: "1 \<le> NumWorkers \<lparr>NumWorkers = 4\<rparr>"
    by simp
  have rel: "RelPath scenarioLinter ?info = Inr ''/repo/.github/workflows/ci.yaml''"
    by (simp add: RelPath_def scenario_eval)
  have enforce: "EnforcePinHash (Params ?info) = Some True"
    and official: "ExcludeOfficialActions (Params ?info) = Some True"
    and verified: "ExcludeVerifiedCreators (Params ?info) = Some False"
    by (simp_all add: scenario_eval)
  have ref1: "ParseActionUses (Value ?u1) = Inr ?a1" "IsPinnedBySHA ?a1"
    "ResolveFromHashContext scenarioLinter (Repository ?a1) (Ref ?a1)
       = Inl ''1234567890123456789012345678901234567890 is neither a commit nor blob''"
    by (simp_all add: parse_eval IsPinnedBySHA_def IsSHA_def isHexDigit_def scenario_eval)
  have ref2: "ParseActionUses (Value ?u2) = Inr ?a2" "\<not> IsPinnedBySHA ?a2"
    by (simp_all add: parse_eval IsPinnedBySHA_def IsSHA_def)
  have chain1: "\<not> IsLocalReusableWorkflows ?a1"
    "\<not> (True \<and> Owner ?a1 \<in> set OfficialCreators)"
    "\<not> fst (isAllowlisted ?a1 (Params ?info))"
    "\<not> (False \<and> RepoID ?a1 \<in> set actionsByVerifiedCreators)"
    "isArchivedAction scenarioLinter ?a1 = Inr (False, None)"
    "False \<longrightarrow> AllowArchivedRepo (Params ?info) = Some True \<and> (None :: string option) \<noteq> None"
    "checkVerifiedOrg scenarioLinter (Owner ?a1) (Params ?info) = None"
    by (simp_all add: IsLocalReusableWorkflows_def OfficialCreators_def isAllowlisted_def
        GetHashAllowlist_def isArchivedAction_def query_def checkVerifiedOrg_def RepoID_def
        scenario_eval)
  have chain2: "\<not> IsLocalReusableWorkflows ?a2"
    "\<not> (True \<and> Owner ?a2 \<in> set OfficialCreators)"
    "\<not> fst (isAllowlisted ?a2 (Params ?info))"
    "\<not> (False \<and> RepoID ?a2 \<in> set actionsByVerifiedCreators)"
    "isArchivedAction scenarioLinter ?a2 = Inr (False, None)"
    "False \<longrightarrow> AllowArchivedRepo (Params ?info) = Some True \<and> (None :: string option) \<noteq> None"
    "checkVerifiedOrg scenarioLinter (Owner ?a2) (Params ?info) = None"
    by (simp_all add: IsLocalReusableWorkflows_def OfficialCreators_def isAllowlisted_def
        GetHashAllowlist_def isArchivedAction_def query_def checkVerifiedOrg_def RepoID_def
        IsPinnedBySHA_def IsSHA_def scenario_eval)
  note w = scenario_C [OF read parsed named steps workers rel enforce official verified
      ref1 ref2 chain1 chain2]
  from w obtain out where run:
    "LintWorkflowFilesContext scenarioLinter \<lparr>NumWorkers = 4\<rparr> [?info] out"
    by blast
  with w show ?thesis
    by (fastforce simp: RepoID_def scenarioInfo_def)
qed

section \<open>The cache of parameter sets\<close>

text \<open>
  Claim C3, as stated: configurations with the same bytes get the same cache key and
  the same cached parameter set, and changing one character of the bytes changes the
  key. The key is computed from the source and the file path of the configuration file,
  not from its bytes, as the comment of \<open>Hash\<close> says: the two files here differ in one
  character and have the same key, whatever the digest function is.
\<close>

theorem cache_key_ignores_content:
  "\<forall>lib. ReadFile lib configA = Inr ''enforce_pin_hash: true''
         \<and> ReadFile lib configB = Inr ''enforce_pin_hash: True''
         \<and> Hash lib configA = Hash lib configB"
  by (simp add: ReadFile_def Hash_def ConfigFilePath_def configA_def configB_def)

text \<open>
  Claim C3, amended: the cache key of a configuration file is the digest of its source
  followed by its file path, whatever its bytes are. Two configuration files with the
  same source, directory and file name get the same key; and once \<open>makeLintParams\<close> has
  returned a parameter set for the first, it returns that same set for the second from
  the cache, with the cache unchanged, whatever the bytes of the second and whatever the
  flags of the second call.
\<close>

theorem cache_key_is_source_and_path:
  assumes same: "source c1 = source c2" "dirPath c1 = dirPath c2" "fileName c1 = fileName c2"
    and first: "makeLintParams lib (Some c1) flags1 visited1 cache = (Inr params, cache')"
  shows "Hash lib c1 = sha3_Sum256_hex lib (source c1 @ filepath_Join lib (dirPath c1) (fileName c1))
         \<and> Hash lib c1 = Hash lib c2
         \<and> makeLintParams lib (Some c2) flags2 visited2 cache' = (Inr params, cache')"
proof -
  have key: "Hash lib c1 = Hash lib c2"
    by (simp add: Hash_def ConfigFilePath_def same)
  have hit: "cache' (Hash lib c1) = Some params"
    using first
    by (auto simp: makeLintParams_def Let_def split: option.splits sum.splits)
  then have "makeLintParams lib (Some c2) flags2 visited2 cache' = (Inr params, cache')"
    by (simp add: makeLintParams_def key)
  then show ?thesis
    using key by (simp add: Hash_def ConfigFilePath_def)
qed

theorem cache_key_is_source_and_path_witness:
  "\<forall>digest.
     makeLintParams (scenarioLibrary digest) (Some configA) noFlags [] Map.empty
       = (Inr defaultParams, [digest ''fileactionarmor.yaml'' \<mapsto> defaultParams])
     \<and> Hash (scenarioLibrary digest) configA = digest ''fileactionarmor.yaml''
     \<and> Hash (scenarioLibrary digest) configA = Hash (scenarioLibrary digest) configB
     \<and> makeLintParams (scenarioLibrary digest) (Some configB)
         (noFlags\<lparr>FlagEnforcePinHash := False\<rparr>) [''enforce-pin-hash'']
         [digest ''fileactionarmor.yaml'' \<mapsto> defaultParams]
       = (Inr defaultParams, [digest ''fileactionarmor.yaml'' \<mapsto> defaultParams])"
proof
  fix digest
  have same: "source configA = source configB" "dirPath configA = dirPath configB"
    "fileName configA = fileName configB"
    by (simp_all add: configA_def configB_def)
  have opts: "ReadLintOptions (scenarioLibrary digest) (Some configA) = Inr [WithEnforcePinHash True]"
    by (simp add: ReadLintOptions_def ReadFile_def toLintParams_def GetOptions_def
        ConfigFilePath_def scenarioLibrary_def configA_def zeroParams_def)
  have hash: "Hash (scenarioLibrary digest) configA = digest ''fileactionarmor.yaml''"
    by (simp add: Hash_def ConfigFilePath_def scenarioLibrary_def configA_def
        ConfigSourceFile_def)
  have first: "makeLintParams (scenarioLibrary digest) (Some configA) noFlags [] Map.empty
                 = (Inr defaultParams, [digest ''fileactionarmor.yaml'' \<mapsto> defaultParams])"
    by (simp add: makeLintParams_def opts toWorkflowLintOptionsFromFlags_def
        NewWorkflowLintParams_enforce hash)
  show "makeLintParams (scenarioLibrary digest) (Some configA) noFlags [] Map.empty
          = (Inr defaultParams, [digest ''fileactionarmor.yaml'' \<mapsto> defaultParams])
        \<and> Hash (scenarioLibrary digest) configA = digest ''fileactionarmor.yaml''
        \<and> Hash (scenarioLibrary digest) configA = Hash (scenarioLibrary digest) configB
        \<and> makeLintParams (scenarioLibrary digest) (Some configB)
            (noFlags\<lparr>FlagEnforcePinHash := False\<rparr>) [''enforce-pin-hash'']
            [digest ''fileactionarmor.yaml'' \<mapsto> defaultParams]
          = (Inr defaultParams, [digest ''fileactionarmor.yaml'' \<mapsto> defaultParams])"
    using first hash
      cache_key_is_source_and_path [OF same first,
        of "noFlags\<lparr>FlagEnforcePinHash := False\<rparr>" "[''enforce-pin-hash'']"]
    by blast
qed

end
